theory Spec2Isabelle
  imports Main "HOL-Library.AList"
begin

section \<open>Host platform, strings and plain JavaScript objects\<close>

text \<open>
  The program is a Node script. Strings are modelled as \<^typ>\<open>string\<close>; a \<^typ>\<open>char\<close> stands
  for one code unit below 256, so texts with code units above that (among them the line
  separators U+2028 and U+2029) are outside the modelled inputs.

  \<open>path.sep\<close> is the only thing the program reads from the host: \<open>/\<close> on POSIX,
  the backslash on Windows.
\<close>

datatype platform = Posix | Win32

definition path_sep :: "platform \<Rightarrow> char" where
  "path_sep pf = (case pf of Posix \<Rightarrow> CHR ''/'' | Win32 \<Rightarrow> CHR 0x5C)"

text \<open>\<open>s.replace(/\//g, path.sep)\<close>: every forward slash becomes the host separator.\<close>

definition replace_slashes :: "platform \<Rightarrow> string \<Rightarrow> string" where
  "replace_slashes pf s = map (\<lambda>c. if c = CHR ''/'' then path_sep pf else c) s"

text \<open>
  \<open>path.join(a, b)\<close>, written without the normalisation Node applies to the result (it
  drops \<open>.\<close> segments and doubled separators and resolves \<open>..\<close>): the path built here
  names the same file. For a plain relative path \<open>b\<close>, such as a name \<open>readdirSync\<close>
  returns or a path below it, it is the very string Node builds.
\<close>

definition path_join :: "platform \<Rightarrow> string \<Rightarrow> string \<Rightarrow> string" where
  "path_join pf a b = a @ [path_sep pf] @ b"

text \<open>
  A plain object (\<open>{}\<close>, an object literal, the result of \<open>Object.assign({}, ...)\<close> or of
  \<open>JSON.parse\<close>) is the list of its own enumerable properties in insertion order. Its
  prototype is \<open>Object.prototype\<close>, whose members a property read \<open>obj[k]\<close> finds when
  \<open>obj\<close> has no own property \<open>k\<close>.
\<close>

type_synonym 'v js_object = "(string \<times> 'v) list"

definition object_prototype_names :: "string list" where
  "object_prototype_names =
     [''constructor'', ''__defineGetter__'', ''__defineSetter__'', ''hasOwnProperty'',
      ''__lookupGetter__'', ''__lookupSetter__'', ''isPrototypeOf'',
      ''propertyIsEnumerable'', ''toString'', ''valueOf'', ''__proto__'',
      ''toLocaleString'']"

datatype 'v property = Undefined | Own 'v | Inherited

text \<open>\<open>obj[k]\<close>: the own property, else the member of \<open>Object.prototype\<close> (a function, or
  for \<open>__proto__\<close> the prototype object itself), else \<open>undefined\<close>.\<close>

definition get_property :: "'v js_object \<Rightarrow> string \<Rightarrow> 'v property" where
  "get_property obj k =
     (case map_of obj k of
        Some v \<Rightarrow> Own v
      | None \<Rightarrow> if k \<in> set object_prototype_names then Inherited else Undefined)"

text \<open>
  \<open>obj[k] = v\<close> (also each step of \<open>Object.assign\<close>): an existing own property keeps its
  place, a new one goes last. For \<open>k = "__proto__"\<close> on an object without such an own
  property the assignment runs the inherited setter, which never creates an own
  property.
\<close>

definition set_property :: "'v js_object \<Rightarrow> string \<Rightarrow> 'v \<Rightarrow> 'v js_object" where
  "set_property obj k v =
     (if k = ''__proto__'' \<and> map_of obj k = None then obj else AList.update k v obj)"

text \<open>
  \<open>Object.keys(obj)\<close>: array indices (canonical decimal strings up to \<open>2^32 - 2\<close>) first,
  in ascending numeric order, then the other keys in insertion order.
\<close>

definition is_digit :: "char \<Rightarrow> bool" where
  "is_digit c = (c \<in> set ''0123456789'')"

definition decimal_value :: "string \<Rightarrow> int" where
  "decimal_value s = foldl (\<lambda>n c. 10 * n + (of_char c - 48)) 0 s"

definition is_array_index :: "string \<Rightarrow> bool" where
  "is_array_index s =
     (s \<noteq> [] \<and> list_all is_digit s \<and> (s = ''0'' \<or> hd s \<noteq> CHR ''0'')
      \<and> decimal_value s \<le> 4294967294)"

definition own_keys :: "'v js_object \<Rightarrow> string list" where
  "own_keys obj =
     sort_key decimal_value (filter is_array_index (map fst obj))
     @ filter (\<lambda>k. \<not> is_array_index k) (map fst obj)"

text \<open>The key under which an array holds its element \<open>n\<close>, and a string its character
  \<open>n\<close>: the decimal numeral of \<open>n\<close>.\<close>

definition digit_char :: "nat \<Rightarrow> char" where
  "digit_char d = ''0123456789'' ! d"

fun index_key :: "nat \<Rightarrow> string" where
  "index_key n =
     (if 10 \<le> n then index_key (n div 10) @ [digit_char (n mod 10)] else [digit_char n])"

declare index_key.simps [simp del]

section \<open>Parsed data: YAML documents and JSON manifests\<close>

text \<open>
  What \<open>yaml.safeLoad\<close> and \<open>JSON.parse\<close> hand to the program. A number is kept as the
  text \<open>toString()\<close> gives for it; the program only asks a number for its type, its
  truthiness and that text. \<open>undefined\<close> (an empty YAML document, a missing property)
  is \<open>None\<close> of \<^typ>\<open>'a option\<close>. Objects carry their own properties only; YAML values of
  other kinds (timestamps, binary data) are outside the modelled documents.
\<close>

datatype jsval =
    JNull
  | JBool bool
  | JNum string
  | JStr string
  | JArr "jsval list"
  | JObj "(string \<times> jsval) list"

definition truthy :: "jsval option \<Rightarrow> bool" where
  "truthy v =
     (case v of
        None \<Rightarrow> False
      | Some JNull \<Rightarrow> False
      | Some (JBool b) \<Rightarrow> b
      | Some (JNum s) \<Rightarrow> s \<noteq> ''0'' \<and> s \<noteq> ''NaN''
      | Some (JStr s) \<Rightarrow> s \<noteq> []
      | Some (JArr xs) \<Rightarrow> True
      | Some (JObj kvs) \<Rightarrow> True)"

text \<open>The own enumerable properties of a value, as \<open>Object.keys\<close> and \<open>Object.assign\<close> see
  them: the fields of an object, the elements of an array and the characters of a string
  under their indices, nothing for the other values.\<close>

definition own_props :: "jsval \<Rightarrow> jsval js_object" where
  "own_props v =
     (case v of
        JObj kvs \<Rightarrow> kvs
      | JArr xs \<Rightarrow> zip (map index_key [0..<length xs]) xs
      | JStr s \<Rightarrow> zip (map index_key [0..<length s]) (map (\<lambda>c. JStr [c]) s)
      | _ \<Rightarrow> [])"

text \<open>\<open>v.name\<close> for the names the program reads (\<open>spec\<close>, \<open>dependencies\<close>, \<open>scripts\<close>,
  \<open>eslintConfig\<close>), none of which is a member of a built-in prototype: the own field of an
  object, \<open>undefined\<close> on every other value but \<open>null\<close> and \<open>undefined\<close>, where the read
  throws.\<close>

datatype exn = TypeError | ReferenceError string | IOError | YAMLException

definition get_member :: "jsval option \<Rightarrow> string \<Rightarrow> exn + jsval option" where
  "get_member v name =
     (case v of
        None \<Rightarrow> Inl TypeError
      | Some JNull \<Rightarrow> Inl TypeError
      | Some (JObj kvs) \<Rightarrow> Inr (map_of kvs name)
      | Some _ \<Rightarrow> Inr None)"

section \<open>The Spec and its construction\<close>

text \<open>The Spec is a plain object from relative path to directive; directives are the
  strings the program compares with \<open>===\<close>.\<close>

type_synonym spec = "string js_object"

definition directives :: "string list" where
  "directives = [''ignore'', ''delete'', ''replace'']"

text \<open>\<open>defaultSpec\<close> of the variant that reads \<open>craft.spec\<close>, and of the one that reads
  \<open>craft.yaml\<close> or \<open>craft.yml\<close>.\<close>

definition defaultSpec_line :: spec where
  "defaultSpec_line =
     [(''node_modules'', ''ignore''), (''package.json'', ''merge''),
      (''package-lock.json'', ''ignore''), (''craft.spec'', ''ignore''),
      (''.git'', ''ignore'')]"

definition defaultSpec_yaml :: spec where
  "defaultSpec_yaml =
     [(''node_modules'', ''ignore''), (''package.json'', ''merge''),
      (''package-lock.json'', ''ignore''), (''craft.yaml'', ''ignore''),
      (''craft.yml'', ''ignore''), (''.git'', ''ignore'')]"

text \<open>What the program prints, one constructor per kind of \<open>console.log\<close> line (colours and
  empty lines left out): \<open>Removed f\<close> is \<open>- f\<close>, \<open>Added f\<close> is \<open>+ f\<close>, \<open>Failed f\<close> is the red
  \<open>! f\<close>, \<open>Info\<close> a fixed line.\<close>

datatype message =
    UsingSpecificationFrom string
  | InvalidDirectiveForFile string string
  | FailedToRead string
  | UsingConfigurationFrom string
  | InvalidValueForDirective string "jsval option"
  | InvalidDirective string
  | Printed exn
  | Removed string
  | Added string
  | Failed string
  | Info string

text \<open>A file of the template snapshot as the loader meets it: \<open>existsSync\<close> is false, or
  it is true and \<open>readFileSync\<close> throws, or it returns the text.\<close>

datatype file_state = Absent | Unreadable | Content string

subsection \<open>The line-oriented format (\<open>readSpec\<close>)\<close>

text \<open>\<open>text.split(/\r?\n/)\<close>: a line feed ends a line and takes a carriage return right
  before it along; there is always a last line, possibly empty.\<close>

fun split_lines :: "string \<Rightarrow> string list" where
  "split_lines [] = [[]]"
| "split_lines [c] = (if c = CHR 0x0A then [[], []] else [[c]])"
| "split_lines (c # d # cs) =
     (if c = CHR 0x0D \<and> d = CHR 0x0A then [] # split_lines cs
      else if c = CHR 0x0A then [] # split_lines (d # cs)
      else (case split_lines (d # cs) of
              [] \<Rightarrow> [[c]]
            | l # ls \<Rightarrow> (c # l) # ls))"

text \<open>
  \<open>/^(.*?):[ \t]*(.*)$/.exec(line)\<close>. The dot matches no line terminator and \<open>$\<close> is the end
  of the string, so a line that holds a carriage return or a line feed has no match. On
  any other line the lazy first group stops at the first colon, the blanks and tabs
  after it are consumed greedily, and the second group is the rest.
\<close>

definition is_line_terminator :: "char \<Rightarrow> bool" where
  "is_line_terminator c = (c = CHR 0x0A \<or> c = CHR 0x0D)"

definition match_line :: "string \<Rightarrow> (string \<times> string) option" where
  "match_line line =
     (if (\<exists>c \<in> set line. is_line_terminator c) \<or> CHR '':'' \<notin> set line then None
      else Some (takeWhile (\<lambda>c. c \<noteq> CHR '':'') line,
                 dropWhile (\<lambda>c. c = CHR '' '' \<or> c = CHR 0x09)
                   (tl (dropWhile (\<lambda>c. c \<noteq> CHR '':'') line))))"

text \<open>The body of the \<open>forEach\<close> over the lines: the Spec and the output so far, and one
  line.\<close>

definition readSpec_line :: "platform \<Rightarrow> spec \<times> message list \<Rightarrow> string \<Rightarrow> spec \<times> message list" where
  "readSpec_line pf st line =
     (if take 1 line \<noteq> ''#'' then
        (case match_line line of
           None \<Rightarrow> st
         | Some (filePath, directive) \<Rightarrow>
             if directive \<in> set directives
             then (set_property (fst st) (replace_slashes pf filePath) directive, snd st)
             else (fst st, snd st @ [InvalidDirectiveForFile filePath directive]))
      else st)"

definition readSpec :: "platform \<Rightarrow> file_state \<Rightarrow> spec \<times> message list" where
  "readSpec pf specFile =
     (case specFile of
        Absent \<Rightarrow> (defaultSpec_line, [])
      | Unreadable \<Rightarrow>
          (defaultSpec_line, [UsingSpecificationFrom ''craft.spec'', FailedToRead ''craft.spec''])
      | Content txt \<Rightarrow>
          fold (\<lambda>line st. readSpec_line pf st line) (split_lines txt)
            (defaultSpec_line, [UsingSpecificationFrom ''craft.spec'']))"

subsection \<open>The structured format (\<open>normalizeConfig\<close>, \<open>readConfig\<close>)\<close>

text \<open>\<open>value.toString()\<close> for the values \<open>add\<close> accepts (\<open>typeof\<close> string, number or
  boolean).\<close>

definition primitive_text :: "jsval option \<Rightarrow> string option" where
  "primitive_text v =
     (case v of
        Some (JStr s) \<Rightarrow> Some s
      | Some (JNum s) \<Rightarrow> Some s
      | Some (JBool b) \<Rightarrow> Some (if b then ''true'' else ''false'')
      | _ \<Rightarrow> None)"

definition add :: "platform \<Rightarrow> string \<Rightarrow> spec \<times> message list \<Rightarrow> jsval option \<Rightarrow> spec \<times> message list" where
  "add pf directive st v =
     (case primitive_text v of
        Some s \<Rightarrow> (set_property (fst st) (replace_slashes pf s) directive, snd st)
      | None \<Rightarrow> (fst st, snd st @ [InvalidValueForDirective directive v]))"

text \<open>The body of the \<open>forEach\<close> over \<open>Object.keys(config.spec)\<close>; \<open>cs\<close> is
  \<open>config.spec\<close>.\<close>

definition normalizeConfig_directive ::
  "platform \<Rightarrow> jsval \<Rightarrow> spec \<times> message list \<Rightarrow> string \<Rightarrow> spec \<times> message list" where
  "normalizeConfig_directive pf cs st directive =
     (if directive \<in> set directives then
        (case map_of (own_props cs) directive of
           Some (JArr vals) \<Rightarrow> fold (\<lambda>val st'. add pf directive st' (Some val)) vals st
         | v \<Rightarrow> add pf directive st v)
      else (fst st, snd st @ [InvalidDirective directive]))"

text \<open>\<open>normalizeConfig(config = {})\<close>: the default parameter replaces \<open>undefined\<close> only, so
  \<open>null\<close> reaches \<open>config.spec\<close> and throws.\<close>

definition normalizeConfig :: "platform \<Rightarrow> jsval option \<Rightarrow> exn + spec \<times> message list" where
  "normalizeConfig pf config =
     (case get_member (case config of None \<Rightarrow> Some (JObj []) | Some c \<Rightarrow> Some c) ''spec'' of
        Inl e \<Rightarrow> Inl e
      | Inr cs \<Rightarrow>
          if truthy cs
          then Inr (fold (\<lambda>directive st. normalizeConfig_directive pf (the cs) st directive)
                      (own_keys (own_props (the cs))) (defaultSpec_yaml, []))
          else Inr (defaultSpec_yaml, []))"

text \<open>
  \<open>readConfig(templateDir)\<close>. \<open>safeLoad\<close> is the YAML parser, a parameter: it throws or
  returns the document. The result is the object \<open>config\<close>: \<open>{}\<close> (here \<open>None\<close>: no
  \<open>spec\<close> property) or \<open>{ spec }\<close>.
\<close>

definition readConfig ::
  "platform \<Rightarrow> (string \<Rightarrow> exn + jsval option) \<Rightarrow> file_state \<Rightarrow> file_state
     \<Rightarrow> spec option \<times> message list" where
  "readConfig pf safeLoad yamlFile ymlFile =
     (let found = (if yamlFile \<noteq> Absent then Some (''craft.yaml'', yamlFile)
                   else if ymlFile \<noteq> Absent then Some (''craft.yml'', ymlFile)
                   else None)
      in case found of
           None \<Rightarrow> (None, [])
         | Some (configFile, f) \<Rightarrow>
             (case (case f of
                      Content txt \<Rightarrow>
                        (case safeLoad txt of
                           Inl e \<Rightarrow> Inl e
                         | Inr doc \<Rightarrow> normalizeConfig pf doc)
                    | _ \<Rightarrow> Inl IOError) of
                Inl e \<Rightarrow>
                  (None, [UsingConfigurationFrom configFile, FailedToRead configFile, Printed e])
              | Inr (spec, out) \<Rightarrow> (Some spec, UsingConfigurationFrom configFile # out)))"

subsection \<open>The entries of a configuration, in the words of the specification\<close>

text \<open>
  A second description of what a configuration contributes, to compare the loaders with:
  the list of its valid entries (path as written, directive) in reading order. In the
  line format every line that is no comment, has the shape \<open>path: directive\<close> and
  names a recognised directive is one entry. In the structured format every recognised
  directive name contributes its path, or each path of its list, when the path is a
  string, a number or a boolean.
\<close>

definition line_entry :: "string \<Rightarrow> (string \<times> string) option" where
  "line_entry line =
     (if take 1 line = ''#'' then None
      else case match_line line of
             None \<Rightarrow> None
           | Some (p, d) \<Rightarrow> if d \<in> set directives then Some (p, d) else None)"

definition line_entries :: "file_state \<Rightarrow> (string \<times> string) list" where
  "line_entries specFile =
     (case specFile of
        Content txt \<Rightarrow> List.map_filter line_entry (split_lines txt)
      | _ \<Rightarrow> [])"

definition directive_entries :: "jsval \<Rightarrow> string \<Rightarrow> (string \<times> string) list" where
  "directive_entries cs d =
     (if d \<in> set directives then
        (case map_of (own_props cs) d of
           Some (JArr vals) \<Rightarrow>
             List.map_filter (\<lambda>val. map_option (\<lambda>p. (p, d)) (primitive_text (Some val))) vals
         | v \<Rightarrow> (case primitive_text v of Some p \<Rightarrow> [(p, d)] | None \<Rightarrow> []))
      else [])"

definition config_entries :: "jsval option \<Rightarrow> (string \<times> string) list" where
  "config_entries config =
     (case config of
        Some (JObj kvs) \<Rightarrow>
          (case map_of kvs ''spec'' of
             Some cs \<Rightarrow>
               if truthy (Some cs)
               then concat (map (directive_entries cs) (own_keys (own_props cs)))
               else []
           | None \<Rightarrow> [])
      | _ \<Rightarrow> [])"

text \<open>Overlaying entries on a Spec, one assignment \<open>spec[path] = directive\<close> each, the path
  in host form.\<close>

definition apply_entries :: "platform \<Rightarrow> (string \<times> string) list \<Rightarrow> spec \<Rightarrow> spec" where
  "apply_entries pf es s = fold (\<lambda>e s'. set_property s' (replace_slashes pf (fst e)) (snd e)) es s"

section \<open>The phases after the clone\<close>

text \<open>
  A run is observed through its events in program order: what it prints, the external
  commands it starts and the file operations it asks for. The callbacks of the file
  operations of one phase may run in any order; the events are listed in the order the
  operations are started.
\<close>

datatype event =
    Print message
  | Spawn string "string list"
  | RemovePath string
  | CopyPath string string
  | WriteJson string jsval nat
  | Cleanup

text \<open>
  How a promise of the chain ends: resolved, rejected with a reason (an object
  \<open>{ command }\<close> or a thrown error), or never settled because an exception escaped from an
  event handler outside the chain, which ends the process. \<open>Unmodelled\<close> marks the inputs
  this model does not follow (a \<open>dependencies\<close> field of the template manifest that is
  truthy but no object).
\<close>

datatype reason = CommandFailed string | Thrown exn

datatype 'a outcome = Resolved 'a | Rejected reason | Crashed exn | Unmodelled

type_synonym 'a step = "event list \<times> 'a outcome"

definition and_then :: "'a step \<Rightarrow> ('a \<Rightarrow> 'b step) \<Rightarrow> 'b step" where
  "and_then st f =
     (case snd st of
        Resolved x \<Rightarrow> (fst st @ fst (f x), snd (f x))
      | Rejected r \<Rightarrow> (fst st, Rejected r)
      | Crashed e \<Rightarrow> (fst st, Crashed e)
      | Unmodelled \<Rightarrow> (fst st, Unmodelled))"

subsection \<open>Deleting\<close>

text \<open>\<open>Promise.all(promises)\<close>: resolved when every promise of the list is, else ended as the
  first one that is not.\<close>

fun promise_all :: "unit outcome list \<Rightarrow> unit outcome" where
  "promise_all [] = Resolved ()"
| "promise_all (Resolved x # ps) = promise_all ps"
| "promise_all (p # ps) = p"

text \<open>
  One promise of the deletion loop: \<open>fs.remove(target, callback)\<close>, whose callback prints
  \<open>! file\<close> when it is handed an error and \<open>- file\<close> otherwise, and calls \<open>resolve()\<close> in both
  cases. \<open>remove_fails\<close> tells for which targets \<open>fs.remove\<close> reports an error.
\<close>

definition remove_file :: "platform \<Rightarrow> string \<Rightarrow> (string \<Rightarrow> bool) \<Rightarrow> string \<Rightarrow> unit step" where
  "remove_file pf root remove_fails file =
     ([RemovePath (path_join pf root file),
       Print (if remove_fails (path_join pf root file) then Failed file else Removed file)],
      Resolved ())"

text \<open>\<open>obj.spec\<close> is \<open>undefined\<close> when the loader returned \<open>{}\<close>; \<open>Object.keys(undefined)\<close>
  throws inside the \<open>then\<close> callback, which rejects the chain.\<close>

definition delete_phase ::
  "platform \<Rightarrow> string \<Rightarrow> (string \<Rightarrow> bool) \<Rightarrow> spec option \<Rightarrow> spec step" where
  "delete_phase pf root remove_fails obj_spec =
     (case obj_spec of
        None \<Rightarrow> ([Print (Info ''Deleting files...'')], Rejected (Thrown TypeError))
      | Some spec \<Rightarrow>
          (let files = filter (\<lambda>file. get_property spec file = Own ''delete'') (own_keys spec);
               promises = map (remove_file pf root remove_fails) files
           in and_then
                (Print (Info ''Deleting files...'') # concat (map fst promises),
                 promise_all (map snd promises))
                (\<lambda>_. ([], Resolved spec))))"

subsection \<open>Copying\<close>

text \<open>\<open>directive && directive !== 'replace'\<close>, read as a condition.\<close>

definition skip :: "spec \<Rightarrow> string \<Rightarrow> bool" where
  "skip spec file =
     (case get_property spec file of
        Undefined \<Rightarrow> False
      | Own directive \<Rightarrow> directive \<noteq> [] \<and> directive \<noteq> ''replace''
      | Inherited \<Rightarrow> True)"


text \<open>One promise of the copy loop: \<open>fs.copy(src, dest, { filter }, callback)\<close>, whose
  callback prints \<open>! file\<close> or \<open>+ file\<close> and calls \<open>resolve()\<close> in both cases.\<close>

definition copy_file ::
  "platform \<Rightarrow> string \<Rightarrow> string \<Rightarrow> (string \<Rightarrow> bool) \<Rightarrow> string \<Rightarrow> unit step" where
  "copy_file pf root tmpdir copy_fails file =
     ([CopyPath (path_join pf tmpdir file) (path_join pf root file),
       Print (if copy_fails (path_join pf tmpdir file) then Failed file else Added file)],
      Resolved ())"

text \<open>\<open>files\<close> is what \<open>fs.readdirSync(obj.tmpdir)\<close> returns: the names of the top-level
  entries of the template snapshot.\<close>

definition copy_phase ::
  "platform \<Rightarrow> string \<Rightarrow> string \<Rightarrow> (string \<Rightarrow> bool) \<Rightarrow> string list \<Rightarrow> spec \<Rightarrow> unit step" where
  "copy_phase pf root tmpdir copy_fails files spec =
     (let promises = map (copy_file pf root tmpdir copy_fails)
                       (filter (\<lambda>file. \<not> skip spec file) files)
      in (Print (Info ''Copying files...'') # concat (map fst promises),
          promise_all (map snd promises)))"

subsection \<open>External commands\<close>

text \<open>\<open>args.join(' ')\<close>.\<close>

definition join_args :: "string list \<Rightarrow> string" where
  "join_args args = (case args of [] \<Rightarrow> [] | a # as \<Rightarrow> foldl (\<lambda>s x. s @ '' '' @ x) a as)"

definition createApp :: "string \<Rightarrow> bool \<Rightarrow> int \<Rightarrow> unit step" where
  "createApp name npx code =
     (let command = (if npx then ''npx'' else ''create-react-app'');
          args = (if npx then [''create-react-app'', name] else [name])
      in ([Spawn command args],
          if code \<noteq> 0 then Rejected (CommandFailed (command @ '' '' @ join_args args))
          else Resolved ()))"

text \<open>The text a template literal gives for a parsed value; \<open>None\<close> when the conversion
  throws (an object whose own \<open>toString\<close> field hides the inherited method).\<close>

fun js_to_string :: "jsval \<Rightarrow> string option" where
  "js_to_string JNull = Some ''null''"
| "js_to_string (JBool b) = Some (if b then ''true'' else ''false'')"
| "js_to_string (JNum s) = Some s"
| "js_to_string (JStr s) = Some s"
| "js_to_string (JObj kvs) =
     (if map_of kvs ''toString'' = None then Some ''[object Object]'' else None)"
| "js_to_string (JArr xs) =
     (let parts = map (\<lambda>x. if x = JNull then Some [] else js_to_string x) xs
      in if None \<in> set parts then None
         else Some (case map the parts of
                      [] \<Rightarrow> []
                    | a # as \<Rightarrow> foldl (\<lambda>s x. s @ '','' @ x) a as))"

text \<open>
  \<open>install(dependencies)\<close>. The arguments are built inside the promise executor, so a
  throw there rejects. In the \<open>close\<close> handler the branch for a non-zero exit code
  evaluates the identifier \<open>command\<close>, which no enclosing scope declares: the read throws
  a \<open>ReferenceError\<close> inside the event handler, before \<open>reject\<close> is called.
\<close>

definition install_args :: "jsval js_object \<Rightarrow> string list option" where
  "install_args dependencies =
     (let pkgs = map (\<lambda>key. map_option (\<lambda>version. key @ ''@'' @ version)
                               (case map_of dependencies key of
                                  None \<Rightarrow> Some ''undefined''
                                | Some v \<Rightarrow> js_to_string v))
                     (own_keys dependencies)
      in if None \<in> set pkgs then None
         else Some ([''install'', ''--save'', ''--loglevel'', ''error''] @ map the pkgs))"

definition install :: "jsval js_object \<Rightarrow> int \<Rightarrow> unit step" where
  "install dependencies code =
     (case install_args dependencies of
        None \<Rightarrow> ([], Rejected (Thrown TypeError))
      | Some args \<Rightarrow>
          ([Spawn ''npm'' args],
           if code \<noteq> 0 then Crashed (ReferenceError ''command'') else Resolved ()))"

text \<open>The handler of the final \<open>catch\<close>.\<close>

definition catch_handler :: "reason \<Rightarrow> event list" where
  "catch_handler reason =
     Print (Info ''Aborting installation.'') #
     (case reason of
        CommandFailed command \<Rightarrow> [Print (Info (''  '' @ command @ '' has failed.''))]
      | Thrown e \<Rightarrow>
          [Print (Info ''Unexpected error. Please report it as a bug:''), Print (Printed e)])"

subsection \<open>Reconciling the manifests\<close>

text \<open>\<open>Object.assign(target, source)\<close>: one assignment per own key of the source, in the
  order of \<open>Object.keys\<close>.\<close>

definition object_assign :: "'v js_object \<Rightarrow> 'v js_object \<Rightarrow> 'v js_object" where
  "object_assign target source =
     fold (\<lambda>k t. case map_of source k of Some v \<Rightarrow> set_property t k v | None \<Rightarrow> t)
       (own_keys source) target"

definition props_of :: "jsval option \<Rightarrow> jsval js_object" where
  "props_of v = (case v of None \<Rightarrow> [] | Some x \<Rightarrow> own_props x)"

text \<open>\<open>keys.forEach(key => { delete templateDependencies[key]; })\<close>.\<close>

definition exclude_installed :: "string list \<Rightarrow> jsval js_object \<Rightarrow> jsval js_object" where
  "exclude_installed keys deps = fold AList.delete keys deps"

text \<open>
  \<open>templateDependencies\<close> is \<open>templatePackageJson.dependencies\<close> itself when that is
  truthy, so the deletions show in the template manifest the later merge reads.
\<close>

definition with_dependencies :: "jsval \<Rightarrow> jsval js_object \<Rightarrow> jsval" where
  "with_dependencies t deps =
     (case t of
        JObj kvs \<Rightarrow>
          (case map_of kvs ''dependencies'' of
             Some (JObj old) \<Rightarrow> JObj (AList.update ''dependencies'' (JObj deps) kvs)
           | _ \<Rightarrow> t)
      | _ \<Rightarrow> t)"

text \<open>\<open>Object.assign({}, appPackageJson.scripts, templatePackageJson.scripts)\<close>.\<close>

definition merge_scripts :: "jsval option \<Rightarrow> jsval option \<Rightarrow> jsval js_object" where
  "merge_scripts app_scripts template_scripts =
     object_assign (object_assign [] (props_of app_scripts)) (props_of template_scripts)"

text \<open>
  The merged manifest of the variant with lint reconciliation:
  \<open>Object.assign({}, template, app, { scripts, eslintConfig })\<close>, where \<open>eslintConfig\<close> is
  \<open>templatePackageJson.eslintConfig || appPackageJson.eslintConfig\<close>. A property whose
  value is \<open>undefined\<close> is left out by \<open>JSON.stringify\<close>; here it is removed from the object.
\<close>

definition merge_manifest_yaml :: "jsval \<Rightarrow> jsval \<Rightarrow> exn + jsval js_object" where
  "merge_manifest_yaml t a =
     (case get_member (Some a) ''scripts'' of
        Inl e \<Rightarrow> Inl e
      | Inr a_scripts \<Rightarrow>
     (case get_member (Some t) ''scripts'' of
        Inl e \<Rightarrow> Inl e
      | Inr t_scripts \<Rightarrow>
     (case get_member (Some t) ''eslintConfig'' of
        Inl e \<Rightarrow> Inl e
      | Inr t_eslint \<Rightarrow>
     (case (if truthy t_eslint then Inr t_eslint else get_member (Some a) ''eslintConfig'') of
        Inl e \<Rightarrow> Inl e
      | Inr eslintConfig \<Rightarrow>
          (let m = set_property (object_assign (object_assign [] (own_props t)) (own_props a))
                     ''scripts'' (JObj (merge_scripts a_scripts t_scripts))
           in Inr (case eslintConfig of
                     Some v \<Rightarrow> set_property m ''eslintConfig'' v
                   | None \<Rightarrow> AList.delete ''eslintConfig'' m))))))"

text \<open>The merged manifest of the earlier variants:
  \<open>Object.assign({}, template, app, { scripts })\<close>.\<close>

definition merge_manifest_line :: "jsval \<Rightarrow> jsval \<Rightarrow> exn + jsval js_object" where
  "merge_manifest_line t a =
     (case get_member (Some a) ''scripts'' of
        Inl e \<Rightarrow> Inl e
      | Inr a_scripts \<Rightarrow>
     (case get_member (Some t) ''scripts'' of
        Inl e \<Rightarrow> Inl e
      | Inr t_scripts \<Rightarrow>
          Inr (set_property (object_assign (object_assign [] (own_props t)) (own_props a))
                 ''scripts'' (JObj (merge_scripts a_scripts t_scripts)))))"

text \<open>What follows a successful \<open>install\<close>: read the app manifest (again), merge, write.
  A manifest that cannot be read or parsed is \<open>None\<close>; the read throws.\<close>

definition write_merged ::
  "platform \<Rightarrow> string \<Rightarrow> (jsval \<Rightarrow> jsval \<Rightarrow> exn + jsval js_object) \<Rightarrow> jsval \<Rightarrow> jsval option \<Rightarrow> bool
     \<Rightarrow> unit step" where
  "write_merged pf root merge t app_json_after write_fails =
     (case app_json_after of
        None \<Rightarrow> ([], Rejected (Thrown IOError))
      | Some a \<Rightarrow>
          (case merge t a of
             Inl e \<Rightarrow> ([], Rejected (Thrown e))
           | Inr merged \<Rightarrow>
               if write_fails then ([], Rejected (Thrown IOError))
               else ([WriteJson (path_join pf root ''package.json'') (JObj merged) 2],
                     Resolved ())))"

text \<open>\<open>templatePackageJson.dependencies || {}\<close>: the object to delete from, and whether it
  is the manifest's own. \<open>None\<close> for a truthy value that is no object.\<close>

definition template_dependencies :: "jsval option \<Rightarrow> (jsval js_object \<times> bool) option" where
  "template_dependencies d =
     (case d of
        Some (JObj kvs) \<Rightarrow> Some (kvs, True)
      | _ \<Rightarrow> if truthy d then None else Some ([], False))"

text \<open>The manifest step of the variant that reads \<open>craft.yaml\<close>: the names to leave out
  are the keys of the \<open>dependencies\<close> of the app manifest as it is before the install.\<close>

definition manifest_phase_yaml ::
  "platform \<Rightarrow> string \<Rightarrow> spec \<Rightarrow> jsval option \<Rightarrow> jsval option \<Rightarrow> int \<Rightarrow> jsval option \<Rightarrow> bool
     \<Rightarrow> unit step" where
  "manifest_phase_yaml pf root spec template_json app_json code app_json_after write_fails =
     (if get_property spec ''package.json'' \<noteq> Own ''merge'' then ([], Resolved ())
      else and_then ([Print (Info ''Installing template packages...'')], Resolved ()) (\<lambda>_.
        case template_json of
          None \<Rightarrow> ([], Resolved ())
        | Some t \<Rightarrow>
       (case get_member (Some t) ''dependencies'' of
          Inl e \<Rightarrow> ([], Rejected (Thrown e))
        | Inr d \<Rightarrow>
       (case template_dependencies d of
          None \<Rightarrow> ([], Unmodelled)
        | Some (templateDependencies, own) \<Rightarrow>
       (case app_json of
          None \<Rightarrow> ([], Rejected (Thrown IOError))
        | Some a \<Rightarrow>
       (case get_member (Some a) ''dependencies'' of
          Inl e \<Rightarrow> ([], Rejected (Thrown e))
        | Inr ad \<Rightarrow>
            (let deps = exclude_installed
                          (if truthy ad then own_keys (props_of ad) else [])
                          templateDependencies;
                 t' = (if own then with_dependencies t deps else t)
             in and_then (install deps code) (\<lambda>_.
                  write_merged pf root merge_manifest_yaml t' app_json_after write_fails))))))))"

text \<open>The manifest step of the variant that reads \<open>craft.spec\<close> (the same code stands in
  \<open>index.js\<close>): the names to leave out are a fixed list.\<close>

definition installedDependencies :: "string list" where
  "installedDependencies = [''react'', ''react-dom'', ''react-scripts'']"

definition manifest_phase_line ::
  "platform \<Rightarrow> string \<Rightarrow> spec \<Rightarrow> jsval option \<Rightarrow> int \<Rightarrow> jsval option \<Rightarrow> bool \<Rightarrow> unit step" where
  "manifest_phase_line pf root spec template_json code app_json_after write_fails =
     (if get_property spec ''package.json'' \<noteq> Own ''merge'' then ([], Resolved ())
      else and_then ([Print (Info ''Installing template packages...'')], Resolved ()) (\<lambda>_.
        case template_json of
          None \<Rightarrow> ([], Resolved ())
        | Some t \<Rightarrow>
       (case get_member (Some t) ''dependencies'' of
          Inl e \<Rightarrow> ([], Rejected (Thrown e))
        | Inr d \<Rightarrow>
       (case template_dependencies d of
          None \<Rightarrow> ([], Unmodelled)
        | Some (templateDependencies, own) \<Rightarrow>
            (let deps = exclude_installed installedDependencies templateDependencies;
                 t' = (if own then with_dependencies t deps else t)
             in and_then (install deps code) (\<lambda>_.
                  write_merged pf root merge_manifest_line t' app_json_after write_fails))))))"

section \<open>The whole run\<close>

text \<open>Everything a run depends on from outside the program.\<close>

record world =
  w_platform :: platform
  w_npx :: bool
  w_projectName :: string
  w_projectTemplate :: string
  w_root :: string
  w_tmpdir :: "string option"
  w_createApp_code :: int
  w_clone_code :: int
  w_specFile :: file_state
  w_yamlFile :: file_state
  w_ymlFile :: file_state
  w_safeLoad :: "string \<Rightarrow> exn + jsval option"
  w_remove_fails :: "string \<Rightarrow> bool"
  w_files :: "string list"
  w_copy_fails :: "string \<Rightarrow> bool"
  w_template_json :: "jsval option"
  w_app_json :: "jsval option"
  w_install_code :: int
  w_app_json_after :: "jsval option"
  w_write_fails :: bool

text \<open>
  The \<open>close\<close> handler of \<open>git clone\<close>: on a non-zero code it rejects and, having no
  \<open>return\<close>, still loads the configuration; the later \<open>resolve\<close> is then without effect.
\<close>

definition clone :: "string \<Rightarrow> string \<Rightarrow> int \<Rightarrow> spec option \<times> message list \<Rightarrow> spec option step" where
  "clone template tmpdir code loaded =
     (Spawn ''git'' [''clone'', template, tmpdir] # map Print (snd loaded),
      if code \<noteq> 0
      then Rejected (CommandFailed (''git'' @ '' '' @ join_args [''clone'', template, tmpdir]))
      else Resolved (fst loaded))"

definition get_tmpdir :: "world \<Rightarrow> string step" where
  "get_tmpdir w =
     ([Print (Info ''Applying custom template...'')],
      case w_tmpdir w of None \<Rightarrow> Rejected (Thrown IOError) | Some d \<Rightarrow> Resolved d)"

definition finish :: "unit step \<Rightarrow> unit step" where
  "finish st =
     (case snd st of
        Resolved x \<Rightarrow> (fst st @ [Print (Info ''Template applied successfully!''), Cleanup], Resolved x)
      | Rejected r \<Rightarrow> (fst st @ catch_handler r, Rejected r)
      | other \<Rightarrow> st)"

definition run_yaml :: "world \<Rightarrow> unit step" where
  "run_yaml w =
     finish
      (and_then (createApp (w_projectName w) (w_npx w) (w_createApp_code w)) (\<lambda>_.
       and_then (get_tmpdir w) (\<lambda>tmpdir.
       and_then (clone (w_projectTemplate w) tmpdir (w_clone_code w)
                   (readConfig (w_platform w) (w_safeLoad w) (w_yamlFile w) (w_ymlFile w))) (\<lambda>obj_spec.
       and_then (delete_phase (w_platform w) (w_root w) (w_remove_fails w) obj_spec) (\<lambda>spec.
       and_then (copy_phase (w_platform w) (w_root w) tmpdir (w_copy_fails w) (w_files w) spec) (\<lambda>_.
         manifest_phase_yaml (w_platform w) (w_root w) spec (w_template_json w) (w_app_json w)
           (w_install_code w) (w_app_json_after w) (w_write_fails w)))))))"

definition run_line :: "world \<Rightarrow> unit step" where
  "run_line w =
     finish
      (and_then (createApp (w_projectName w) (w_npx w) (w_createApp_code w)) (\<lambda>_.
       and_then (get_tmpdir w) (\<lambda>tmpdir.
       and_then (clone (w_projectTemplate w) tmpdir (w_clone_code w)
                   (Some (fst (readSpec (w_platform w) (w_specFile w))),
                    snd (readSpec (w_platform w) (w_specFile w)))) (\<lambda>obj_spec.
       and_then (delete_phase (w_platform w) (w_root w) (w_remove_fails w) obj_spec) (\<lambda>spec.
       and_then (copy_phase (w_platform w) (w_root w) tmpdir (w_copy_fails w) (w_files w) spec) (\<lambda>_.
         manifest_phase_line (w_platform w) (w_root w) spec (w_template_json w)
           (w_install_code w) (w_app_json_after w) (w_write_fails w)))))))"

subsection \<open>A sample run\<close>

text \<open>
  A concrete world to evaluate the runs on: the generator and the clone succeed, the
  template brings no configuration file, a few top-level entries and a manifest whose
  dependencies overlap with those of the generated app.
\<close>

definition sample_template :: "jsval js_object" where
  "sample_template =
     [(''name'', JStr ''template''),
      (''dependencies'',
         JObj [(''lodash'', JStr ''^4.0.0''), (''react'', JStr ''^16.8.0''),
               (''web-vitals'', JStr ''^1.0.0'')]),
      (''scripts'', JObj [(''build'', JStr ''custom-build'')]),
      (''eslintConfig'', JObj [(''extends'', JStr ''airbnb'')])]"

definition sample_app :: "jsval js_object" where
  "sample_app =
     [(''name'', JStr ''my-app''),
      (''dependencies'',
         JObj [(''react'', JStr ''^18.2.0''), (''react-dom'', JStr ''^18.2.0''),
               (''react-scripts'', JStr ''5.0.1''), (''web-vitals'', JStr ''^2.1.4'')]),
      (''scripts'',
         JObj [(''build'', JStr ''react-scripts build''),
               (''test'', JStr ''react-scripts test'')]),
      (''eslintConfig'', JObj [(''extends'', JStr ''react-app'')])]"

definition sample_world :: world where
  "sample_world =
     \<lparr> w_platform = Posix, w_npx = True, w_projectName = ''my-app'',
       w_projectTemplate = ''https://example.org/t.git'', w_root = ''/home/u/my-app'',
       w_tmpdir = Some ''/tmp/t'', w_createApp_code = 0, w_clone_code = 0,
       w_specFile = Absent, w_yamlFile = Absent, w_ymlFile = Absent,
       w_safeLoad = (\<lambda>txt. Inr None), w_remove_fails = (\<lambda>target. False),
       w_files = [''.git'', ''README.md'', ''constructor'', ''package.json''],
       w_copy_fails = (\<lambda>src. False),
       w_template_json = Some (JObj sample_template), w_app_json = Some (JObj sample_app),
       w_install_code = 0, w_app_json_after = Some (JObj sample_app), w_write_fails = False \<rparr>"

section \<open>Properties of plain objects\<close>

lemma map_of_set_property:
  "map_of (set_property obj k v) k' =
     (if k' = k \<and> \<not> (k = ''__proto__'' \<and> map_of obj k = None) then Some v else map_of obj k')"
  by (auto simp: set_property_def AList.update_conv')

lemma set_update_subset: "set (AList.update k v al) \<subseteq> insert (k, v) (set al)"
  by (induct al) auto

lemma set_set_property: "set (set_property obj k v) \<subseteq> insert (k, v) (set obj)"
  using set_update_subset [of k v obj] by (auto simp: set_property_def)

lemma distinct_set_property:
  "distinct (map fst obj) \<Longrightarrow> distinct (map fst (set_property obj k v))"
  by (simp add: set_property_def AList.distinct_update)

lemma set_own_keys: "set (own_keys obj) = fst ` set obj"
  by (auto simp: own_keys_def)

lemma map_of_fold_assign:
  "map_of tgt ''__proto__'' = None \<Longrightarrow>
   map_of (fold (\<lambda>k t. case map_of src k of Some v \<Rightarrow> set_property t k v | None \<Rightarrow> t) ks tgt) k =
     (if k \<in> set ks \<and> k \<noteq> ''__proto__''
      then (case map_of src k of Some v \<Rightarrow> Some v | None \<Rightarrow> map_of tgt k)
      else map_of tgt k)"
proof (induction ks arbitrary: tgt)
  case Nil
  then show ?case by simp
next
  case (Cons a ks)
  let ?tgt = "case map_of src a of Some v \<Rightarrow> set_property tgt a v | None \<Rightarrow> tgt"
  have p: "map_of ?tgt ''__proto__'' = None"
    using Cons.prems by (auto simp: map_of_set_property split: option.splits)
  have l: "map_of ?tgt k = (if k = a \<and> a \<noteq> ''__proto__'' \<and> map_of src a \<noteq> None
                            then map_of src a else map_of tgt k)"
    using Cons.prems by (auto simp: map_of_set_property split: option.splits)
  have "map_of (fold (\<lambda>k t. case map_of src k of Some v \<Rightarrow> set_property t k v | None \<Rightarrow> t)
                 (a # ks) tgt) k
      = (if k \<in> set ks \<and> k \<noteq> ''__proto__''
         then (case map_of src k of Some v \<Rightarrow> Some v | None \<Rightarrow> map_of ?tgt k)
         else map_of ?tgt k)"
    using Cons.IH [OF p] by simp
  also have "\<dots> = (if k \<in> set (a # ks) \<and> k \<noteq> ''__proto__''
      then (case map_of src k of Some v \<Rightarrow> Some v | None \<Rightarrow> map_of tgt k)
      else map_of tgt k)"
    unfolding l by (auto split: option.splits)
  finally show ?case .
qed

lemma map_of_object_assign:
  assumes "map_of tgt ''__proto__'' = None"
  shows "map_of (object_assign tgt src) k =
           (if k = ''__proto__'' then None else (map_of tgt ++ map_of src) k)"
proof -
  have "k \<in> set (own_keys src) \<longleftrightarrow> map_of src k \<noteq> None"
    by (simp add: set_own_keys map_of_eq_None_iff)
  then show ?thesis
    using assms by (auto simp: object_assign_def map_of_fold_assign map_add_def split: option.splits)
qed

lemma map_of_assign_twice:
  "map_of (object_assign (object_assign [] a) b) k =
     (if k = ''__proto__'' then None else (map_of a ++ map_of b) k)"
proof -
  have e: "map_of (object_assign [] a) ''__proto__'' = None"
    by (simp add: map_of_object_assign)
  show ?thesis
    by (simp add: map_of_object_assign [OF e] map_of_object_assign map_add_def split: option.splits)
qed

section \<open>The loaders overlay the entries on the defaults\<close>

lemma apply_entries_Nil [simp]: "apply_entries pf [] s = s"
  by (simp add: apply_entries_def)

lemma apply_entries_Cons [simp]:
  "apply_entries pf (e # es) s = apply_entries pf es (set_property s (replace_slashes pf (fst e)) (snd e))"
  by (simp add: apply_entries_def)

lemma apply_entries_append [simp]:
  "apply_entries pf (es @ fs) s = apply_entries pf fs (apply_entries pf es s)"
  by (simp add: apply_entries_def)

lemma fst_readSpec_line:
  "fst (readSpec_line pf st line) = apply_entries pf (case line_entry line of None \<Rightarrow> [] | Some e \<Rightarrow> [e]) (fst st)"
  by (simp add: readSpec_line_def line_entry_def split: option.splits)

lemma fst_fold_readSpec_line:
  "fst (fold (\<lambda>line st. readSpec_line pf st line) ls st)
     = apply_entries pf (List.map_filter line_entry ls) (fst st)"
proof (induction ls arbitrary: st)
  case Nil
  then show ?case by (simp add: List.map_filter_simps)
next
  case (Cons l ls)
  then show ?case
    by (simp add: List.map_filter_simps fst_readSpec_line split: option.splits)
qed

lemma fst_readSpec: "fst (readSpec pf f) = apply_entries pf (line_entries f) defaultSpec_line"
  by (cases f) (simp_all add: readSpec_def line_entries_def fst_fold_readSpec_line)

lemma fst_fold_add:
  "fst (fold (\<lambda>val st'. add pf d st' (Some val)) vals st)
     = apply_entries pf (List.map_filter (\<lambda>val. map_option (\<lambda>p. (p, d)) (primitive_text (Some val))) vals) (fst st)"
proof (induction vals arbitrary: st)
  case Nil
  then show ?case by (simp add: List.map_filter_simps)
next
  case (Cons v vs)
  then show ?case
    by (simp add: List.map_filter_simps add_def split: option.splits)
qed

lemma fst_normalizeConfig_directive:
  "fst (normalizeConfig_directive pf cs st d) = apply_entries pf (directive_entries cs d) (fst st)"
proof (cases "d \<in> set directives")
  case False
  then show ?thesis by (simp add: normalizeConfig_directive_def directive_entries_def)
next
  case True
  show ?thesis
  proof (cases "\<exists>vals. map_of (own_props cs) d = Some (JArr vals)")
    case True
    with \<open>d \<in> set directives\<close> show ?thesis
      by (auto simp: normalizeConfig_directive_def directive_entries_def fst_fold_add)
  next
    case False
    with \<open>d \<in> set directives\<close> show ?thesis
      by (auto simp: normalizeConfig_directive_def directive_entries_def add_def
          split: option.splits jsval.splits)
  qed
qed

lemma fst_fold_normalizeConfig_directive:
  "fst (fold (\<lambda>d st. normalizeConfig_directive pf cs st d) ds st)
     = apply_entries pf (concat (map (directive_entries cs) ds)) (fst st)"
  by (induction ds arbitrary: st) (simp_all add: fst_normalizeConfig_directive)

lemma normalizeConfig_entries:
  "normalizeConfig pf config = Inr r \<Longrightarrow>
     fst r = apply_entries pf (config_entries config) defaultSpec_yaml"
  by (auto simp: normalizeConfig_def config_entries_def get_member_def truthy_def
      fst_fold_normalizeConfig_directive
      split: option.splits jsval.splits if_splits)

lemma map_of_apply_entries:
  "K \<noteq> ''__proto__'' \<Longrightarrow>
   map_of (apply_entries pf es s) K =
     (case map_of (rev (map (\<lambda>e. (replace_slashes pf (fst e), snd e)) es)) K of
        Some d \<Rightarrow> Some d
      | None \<Rightarrow> map_of s K)"
proof (induction es arbitrary: s)
  case Nil
  then show ?case by simp
next
  case (Cons e es)
  then show ?case
    by (auto simp: map_of_set_property map_add_def split: option.splits)
qed

lemma replace_slashes_eq_iff:
  assumes "CHR ''/'' \<notin> set p" and "path_sep pf \<notin> set p"
  shows "replace_slashes pf q = p \<longleftrightarrow> q = p"
proof
  assume "q = p"
  with assms(1) show "replace_slashes pf q = p"
    by (auto simp: replace_slashes_def intro!: map_idI)
next
  assume eq: "replace_slashes pf q = p"
  have "CHR ''/'' \<notin> set q"
  proof
    assume "CHR ''/'' \<in> set q"
    then have "path_sep pf \<in> set (replace_slashes pf q)"
      by (force simp: replace_slashes_def)
    with eq assms(2) show False by simp
  qed
  then have "replace_slashes pf q = q"
    by (auto simp: replace_slashes_def intro!: map_idI)
  with eq show "q = p" by simp
qed

lemma map_of_rev_host_paths:
  assumes "\<And>q. f q = p \<longleftrightarrow> q = p"
  shows "map_of (rev (map (\<lambda>e. (f (fst e), snd e)) es)) p = map_of (rev es) p"
proof (induction es)
  case Nil
  then show ?case by simp
next
  case (Cons e es)
  then show ?case
    using assms [of "fst e"] by (cases e) (auto simp: map_add_def split: option.splits)
qed

lemma default_path_plain:
  assumes "p \<in> fst ` set defaultSpec_line \<or> p \<in> fst ` set defaultSpec_yaml"
  shows "CHR ''/'' \<notin> set p" and "path_sep pf \<notin> set p" and "p \<noteq> ''__proto__''"
  using assms by (cases pf; auto simp: defaultSpec_line_def defaultSpec_yaml_def path_sep_def)+

lemma map_of_apply_entries_default_path:
  assumes "p \<in> fst ` set defaultSpec_line \<or> p \<in> fst ` set defaultSpec_yaml"
  shows "map_of (apply_entries pf es s) p =
           (case map_of (rev es) p of Some d \<Rightarrow> Some d | None \<Rightarrow> map_of s p)"
proof -
  have "\<And>q. replace_slashes pf q = p \<longleftrightarrow> q = p"
    using default_path_plain(1,2) [OF assms] by (rule replace_slashes_eq_iff)
  then have "map_of (rev (map (\<lambda>e. (replace_slashes pf (fst e), snd e)) es)) p = map_of (rev es) p"
    by (rule map_of_rev_host_paths)
  with default_path_plain(3) [OF assms] show ?thesis
    by (simp add: map_of_apply_entries)
qed




text \<open>
  C6. An entry whose directive token is not in the list of recognised directives: in the
  line format (a line that is no comment and matches as \<open>filePath: directive\<close>) the loop
  body leaves the whole Spec as it was and prints one warning naming path and token; in
  the structured format (a key \<open>directive\<close> of \<open>config.spec\<close>) the loop body leaves the
  whole Spec as it was and prints one warning naming the token.
\<close>

theorem unrecognized_directive_leaves_spec:
  assumes "directive \<notin> set directives"
  shows "(take 1 line \<noteq> ''#'' \<and> match_line line = Some (filePath, directive) \<longrightarrow>
           readSpec_line pf (spec, out) line
             = (spec, out @ [InvalidDirectiveForFile filePath directive]))
       \<and> normalizeConfig_directive pf cs (spec, out) directive
             = (spec, out @ [InvalidDirective directive])"
  using assms by (simp add: readSpec_line_def normalizeConfig_directive_def)

theorem unrecognized_directive_leaves_spec_witness:
  "readSpec_line Posix (defaultSpec_line, []) ''package.json: merge''
     = (defaultSpec_line, [InvalidDirectiveForFile ''package.json'' ''merge''])
   \<and> normalizeConfig_directive Posix (JObj [(''keep'', JStr ''src'')]) (defaultSpec_yaml, []) ''keep''
     = (defaultSpec_yaml, [InvalidDirective ''keep''])"
proof -
  have m: "match_line ''package.json: merge'' = Some (''package.json'', ''merge'')"
    by code_simp
  have d: "''merge'' \<notin> set directives" "''keep'' \<notin> set directives"
    by (simp_all add: directives_def)
  show ?thesis
    using unrecognized_directive_leaves_spec [OF d(1), where line = "''package.json: merge''"
        and filePath = "''package.json''" and pf = Posix and spec = defaultSpec_line and out = "[]"]
      unrecognized_directive_leaves_spec [OF d(2), where pf = Posix
        and cs = "JObj [(''keep'', JStr ''src'')]" and spec = defaultSpec_yaml and out = "[]"]
      m
    by simp
qed

section \<open>The values of a Spec\<close>

lemma values_apply_entries:
  assumes "\<And>k v. (k, v) \<in> set s \<Longrightarrow> P k v"
    and "\<And>p d. (p, d) \<in> set es \<Longrightarrow> P (replace_slashes pf p) d"
  shows "(k, v) \<in> set (apply_entries pf es s) \<Longrightarrow> P k v"
  using assms
proof (induction es arbitrary: s)
  case Nil
  then show ?case by simp
next
  case (Cons e es)
  show ?case
  proof (rule Cons.IH [of "set_property s (replace_slashes pf (fst e)) (snd e)"])
    show "(k, v) \<in> set (apply_entries pf es (set_property s (replace_slashes pf (fst e)) (snd e)))"
      using Cons.prems(1) by simp
  next
    fix k' v' assume "(k', v') \<in> set (set_property s (replace_slashes pf (fst e)) (snd e))"
    then have "(k', v') = (replace_slashes pf (fst e), snd e) \<or> (k', v') \<in> set s"
      using set_set_property by fastforce
    then show "P k' v'"
      using Cons.prems(2) Cons.prems(3) [of "fst e" "snd e"] by auto
  next
    fix p d assume "(p, d) \<in> set es"
    then show "P (replace_slashes pf p) d" using Cons.prems(3) by simp
  qed
qed

lemma in_set_map_filter: "y \<in> set (List.map_filter f xs) \<longleftrightarrow> (\<exists>x \<in> set xs. f x = Some y)"
  by (induction xs) (auto simp: List.map_filter_simps split: option.splits)

lemma line_entries_directive: "(p, d) \<in> set (line_entries f) \<Longrightarrow> d \<in> set directives"
  by (auto simp: line_entries_def line_entry_def in_set_map_filter
      split: file_state.splits option.splits if_splits)

lemma directive_entries_directive: "(p, d') \<in> set (directive_entries cs d) \<Longrightarrow> d' \<in> set directives"
  by (auto simp: directive_entries_def in_set_map_filter
      split: option.splits if_splits jsval.splits)

lemma config_entries_directive: "(p, d) \<in> set (config_entries config) \<Longrightarrow> d \<in> set directives"
  by (auto simp: config_entries_def dest: directive_entries_directive
      split: option.splits if_splits jsval.splits)

lemma distinct_apply_entries:
  "distinct (map fst s) \<Longrightarrow> distinct (map fst (apply_entries pf es s))"
  by (induction es arbitrary: s) (simp_all add: distinct_set_property)

lemma distinct_defaultSpec:
  "distinct (map fst defaultSpec_line)" "distinct (map fst defaultSpec_yaml)"
  by (simp_all add: defaultSpec_line_def defaultSpec_yaml_def)

lemma built_spec_values:
  assumes dflt: "dflt = defaultSpec_line \<or> dflt = defaultSpec_yaml"
    and es: "\<And>p d. (p, d) \<in> set es \<Longrightarrow> d \<in> set directives"
    and kv: "(k, v) \<in> set (apply_entries pf es dflt)"
  shows "v \<in> set [''ignore'', ''delete'', ''replace'', ''merge'']"
    and "v = ''merge'' \<Longrightarrow> k = ''package.json'' \<and> ''package.json'' \<notin> fst ` set es"
proof -
  let ?P = "\<lambda>k v. v \<in> set directives \<or> (k = ''package.json'' \<and> v = ''merge'')"
  have "\<And>k v. (k, v) \<in> set dflt \<Longrightarrow> ?P k v"
    using dflt by (auto simp: defaultSpec_line_def defaultSpec_yaml_def directives_def)
  moreover have "\<And>p d. (p, d) \<in> set es \<Longrightarrow> ?P (replace_slashes pf p) d"
    using es by simp
  ultimately have P: "?P k v"
    using kv by (rule values_apply_entries [where P = ?P])
  then show "v \<in> set [''ignore'', ''delete'', ''replace'', ''merge'']"
    by (auto simp: directives_def)
  show "k = ''package.json'' \<and> ''package.json'' \<notin> fst ` set es" if m: "v = ''merge''"
  proof
    from P m show k: "k = ''package.json''" by (auto simp: directives_def)
    have "distinct (map fst (apply_entries pf es dflt))"
      using dflt by (auto intro: distinct_apply_entries simp: distinct_defaultSpec)
    with kv k m have "map_of (apply_entries pf es dflt) ''package.json'' = Some ''merge''"
      by simp
    moreover have "''package.json'' \<in> fst ` set defaultSpec_line \<or> ''package.json'' \<in> fst ` set defaultSpec_yaml"
      by (simp add: defaultSpec_line_def)
    ultimately have *: "(case map_of (rev es) ''package.json'' of Some d \<Rightarrow> Some d | None \<Rightarrow> map_of dflt ''package.json'')
        = Some ''merge''"
      by (simp add: map_of_apply_entries_default_path)
    show "''package.json'' \<notin> fst ` set es"
    proof
      assume "''package.json'' \<in> fst ` set es"
      then have "''package.json'' \<in> fst ` set (rev es)" by simp
      then obtain d where d: "map_of (rev es) ''package.json'' = Some d"
        by (metis domD dom_map_of_conv_image_fst)
      then have "(''package.json'', d) \<in> set es"
        using map_of_SomeD by fastforce
      then have "d \<in> set directives" by (rule es)
      moreover from * d have "d = ''merge''" by simp
      ultimately show False by (simp add: directives_def)
    qed
  qed
qed

text \<open>
  C10. Every value of a Spec that \<open>readSpec\<close> or \<open>normalizeConfig\<close> returns is one of
  \<open>ignore\<close>, \<open>delete\<close>, \<open>replace\<close>, \<open>merge\<close>. The value \<open>merge\<close> stands under the key
  \<open>package.json\<close> only, and only when the configuration has no valid entry for
  \<open>package.json\<close>; the list the loaders validate against holds \<open>ignore\<close>, \<open>delete\<close> and
  \<open>replace\<close>.
\<close>

theorem spec_values_are_directives:
  "((k, v) \<in> set (fst (readSpec pf specFile)) \<longrightarrow>
      v \<in> set [''ignore'', ''delete'', ''replace'', ''merge'']
      \<and> (v = ''merge'' \<longrightarrow>
           k = ''package.json'' \<and> ''package.json'' \<notin> fst ` set (line_entries specFile)))
   \<and> (normalizeConfig pf config = Inr (s, out) \<and> (k, v) \<in> set s \<longrightarrow>
      v \<in> set [''ignore'', ''delete'', ''replace'', ''merge'']
      \<and> (v = ''merge'' \<longrightarrow>
           k = ''package.json'' \<and> ''package.json'' \<notin> fst ` set (config_entries config)))
   \<and> directives = [''ignore'', ''delete'', ''replace'']"
proof (intro conjI impI)
  show "directives = [''ignore'', ''delete'', ''replace'']" by (simp add: directives_def)
next
  assume a: "(k, v) \<in> set (fst (readSpec pf specFile))"
  then have kv: "(k, v) \<in> set (apply_entries pf (line_entries specFile) defaultSpec_line)"
    by (simp add: fst_readSpec)
  show "v \<in> set [''ignore'', ''delete'', ''replace'', ''merge'']"
    using built_spec_values(1) [OF _ _ kv] line_entries_directive by blast
  show "k = ''package.json''" if "v = ''merge''"
    using built_spec_values(2) [OF _ _ kv that] line_entries_directive by blast
  show "''package.json'' \<notin> fst ` set (line_entries specFile)" if "v = ''merge''"
    using built_spec_values(2) [OF _ _ kv that] line_entries_directive by blast
next
  assume a: "normalizeConfig pf config = Inr (s, out) \<and> (k, v) \<in> set s"
  then have "s = apply_entries pf (config_entries config) defaultSpec_yaml"
    using normalizeConfig_entries [of pf config "(s, out)"] by simp
  with a have kv: "(k, v) \<in> set (apply_entries pf (config_entries config) defaultSpec_yaml)"
    by simp
  show "v \<in> set [''ignore'', ''delete'', ''replace'', ''merge'']"
    using built_spec_values(1) [OF _ _ kv] config_entries_directive by blast
  show "k = ''package.json''" if "v = ''merge''"
    using built_spec_values(2) [OF _ _ kv that] config_entries_directive by blast
  show "''package.json'' \<notin> fst ` set (config_entries config)" if "v = ''merge''"
    using built_spec_values(2) [OF _ _ kv that] config_entries_directive by blast
qed

theorem spec_values_are_directives_witness:
  "(''package.json'', ''merge'') \<in> set (fst (readSpec Posix (Content ''src/old: delete'')))
   \<and> ''package.json'' \<notin> fst ` set (line_entries (Content ''src/old: delete''))
   \<and> normalizeConfig Win32 (Some (JObj [(''spec'', JObj [(''ignore'', JStr ''docs'')])]))
       = Inr ([(''node_modules'', ''ignore''), (''package.json'', ''merge''),
               (''package-lock.json'', ''ignore''), (''craft.yaml'', ''ignore''),
               (''craft.yml'', ''ignore''), (''.git'', ''ignore''), (''docs'', ''ignore'')], [])
   \<and> ''package.json''
       \<notin> fst ` set (config_entries (Some (JObj [(''spec'', JObj [(''ignore'', JStr ''docs'')])])))"
proof -
  have h1: "(''package.json'', ''merge'') \<in> set (fst (readSpec Posix (Content ''src/old: delete'')))"
    by code_simp
  have h2: "normalizeConfig Win32 (Some (JObj [(''spec'', JObj [(''ignore'', JStr ''docs'')])]))
       = Inr ([(''node_modules'', ''ignore''), (''package.json'', ''merge''),
               (''package-lock.json'', ''ignore''), (''craft.yaml'', ''ignore''),
               (''craft.yml'', ''ignore''), (''.git'', ''ignore''), (''docs'', ''ignore'')], [])"
    by code_simp
  have h3: "(''package.json'', ''merge'')
      \<in> set [(''node_modules'', ''ignore''), (''package.json'', ''merge''),
               (''package-lock.json'', ''ignore''), (''craft.yaml'', ''ignore''),
               (''craft.yml'', ''ignore''), (''.git'', ''ignore''), (''docs'', ''ignore'')]"
    by simp
  show ?thesis
    using spec_values_are_directives [THEN conjunct1, THEN mp, OF h1]
      spec_values_are_directives [THEN conjunct2, THEN conjunct1, THEN mp, OF conjI, OF h2 h3]
      h1 h2
    by simp
qed

section \<open>The phases as lists of events\<close>

lemma promise_all_resolved: "promise_all (map (\<lambda>x. Resolved ()) xs) = Resolved ()"
  by (induction xs) simp_all

lemma and_then_resolved: "and_then (evs, Resolved x) f = (evs @ fst (f x), snd (f x))"
  by (simp add: and_then_def)

lemma delete_phase_events:
  "delete_phase pf root remove_fails (Some spec) =
       (Print (Info ''Deleting files...'') #
        concat (map (\<lambda>file. [RemovePath (path_join pf root file),
                              Print (if remove_fails (path_join pf root file)
                                     then Failed file else Removed file)])
                  (filter (\<lambda>file. get_property spec file = Own ''delete'') (own_keys spec))),
        Resolved spec)"
  by (simp add: delete_phase_def Let_def remove_file_def and_then_def comp_def
      promise_all_resolved)

lemma copy_phase_events:
  "copy_phase pf root tmpdir copy_fails files spec =
       (Print (Info ''Copying files...'') #
        concat (map (\<lambda>file. [CopyPath (path_join pf tmpdir file) (path_join pf root file),
                              Print (if copy_fails (path_join pf tmpdir file)
                                     then Failed file else Added file)])
                  (filter (\<lambda>file. \<not> skip spec file) files)),
        Resolved ())"
  by (simp add: copy_phase_def Let_def copy_file_def comp_def promise_all_resolved)

section \<open>Copying: what is skipped and what is filtered\<close>

text \<open>
  C2. The claim says that a top-level entry without a directive is copied. The Spec is a
  plain object, so \<open>obj.spec[file]\<close> for an entry named like a member of
  \<open>Object.prototype\<close> (here \<open>constructor\<close>) finds the inherited member, which is truthy and
  is not \<open>'replace'\<close>: \<open>skip\<close> holds and the copy loop passes the entry by, although no Spec,
  default or configured, has a directive for it.
\<close>

theorem prototype_member_name_is_skipped:
  "map_of defaultSpec_yaml ''constructor'' = None
   \<and> map_of defaultSpec_line ''constructor'' = None
   \<and> skip defaultSpec_yaml ''constructor''
   \<and> skip defaultSpec_line ''constructor''
   \<and> copy_phase Posix ''/home/u/my-app'' ''/tmp/t'' (\<lambda>src. False)
         [''README.md'', ''constructor''] defaultSpec_yaml
       = ([Print (Info ''Copying files...''),
           CopyPath ''/tmp/t/README.md'' ''/home/u/my-app/README.md'',
           Print (Added ''README.md'')],
          Resolved ())"
  by code_simp

lemma skip_top_level:
  assumes "file \<notin> set object_prototype_names" and "\<And>d. (file, d) \<in> set s \<Longrightarrow> d \<noteq> []"
  shows "skip s file \<longleftrightarrow> (\<exists>d. map_of s file = Some d \<and> d \<noteq> ''replace'')"
proof (cases "map_of s file")
  case None
  with assms(1) show ?thesis by (simp add: skip_def get_property_def)
next
  case (Some d)
  then have "d \<noteq> []" using assms(2) map_of_SomeD by fastforce
  with Some show ?thesis by (simp add: skip_def get_property_def)
qed

lemma built_spec_nonempty:
  assumes "s = fst (readSpec pf specFile) \<or> normalizeConfig pf config = Inr (s, out)"
    and "(k, d) \<in> set s"
  shows "d \<noteq> []"
proof -
  from assms(1) have "d \<in> set [''ignore'', ''delete'', ''replace'', ''merge'']"
  proof
    assume "s = fst (readSpec pf specFile)"
    with assms(2) have "(k, d) \<in> set (apply_entries pf (line_entries specFile) defaultSpec_line)"
      by (simp add: fst_readSpec)
    then show ?thesis
      using built_spec_values(1) line_entries_directive by blast
  next
    assume "normalizeConfig pf config = Inr (s, out)"
    then have "s = apply_entries pf (config_entries config) defaultSpec_yaml"
      using normalizeConfig_entries [of pf config "(s, out)"] by simp
    with assms(2) show ?thesis
      using built_spec_values(1) config_entries_directive by blast
  qed
  then show ?thesis by auto
qed

text \<open>
  For every other name the copy loop does what C2 says: with a Spec that \<open>readSpec\<close> or
  \<open>normalizeConfig\<close> returned and an entry name that is no member of \<open>Object.prototype\<close>,
  the copy of the entry is started if and only if \<open>readdirSync\<close> lists the entry and the
  Spec has no directive for it or the directive \<open>replace\<close>.
\<close>

theorem top_level_entry_copied_iff:
  assumes "s = fst (readSpec pf specFile) \<or> normalizeConfig pf config = Inr (s, out)"
    and "entry \<notin> set object_prototype_names"
  shows "(CopyPath (path_join pf tmpdir entry) (path_join pf root entry)
            \<in> set (fst (copy_phase pf root tmpdir copy_fails files s)))
         = (entry \<in> set files \<and> (map_of s entry = None \<or> map_of s entry = Some ''replace''))"
proof -
  have sk: "skip s entry \<longleftrightarrow> (\<exists>d. map_of s entry = Some d \<and> d \<noteq> ''replace'')"
    using assms(2) built_spec_nonempty [OF assms(1)] by (rule skip_top_level)
  have "(CopyPath (path_join pf tmpdir entry) (path_join pf root entry)
            \<in> set (fst (copy_phase pf root tmpdir copy_fails files s)))
        = (entry \<in> set files \<and> \<not> skip s entry)"
    by (auto simp: copy_phase_events path_join_def)
  with sk show ?thesis by auto
qed

theorem top_level_entry_copied_iff_witness:
  "CopyPath ''/tmp/t/README.md'' ''/home/u/my-app/README.md''
     \<in> set (fst (copy_phase Posix ''/home/u/my-app'' ''/tmp/t'' (\<lambda>src. False)
                   [''README.md'', ''.git''] (fst (readSpec Posix Absent))))
   \<and> CopyPath ''/tmp/t/.git'' ''/home/u/my-app/.git''
     \<notin> set (fst (copy_phase Posix ''/home/u/my-app'' ''/tmp/t'' (\<lambda>src. False)
                   [''README.md'', ''.git''] (fst (readSpec Posix Absent))))"
proof -
  have m1: "map_of (fst (readSpec Posix Absent)) ''README.md'' = None"
    and m2: "map_of (fst (readSpec Posix Absent)) ''.git'' = Some ''ignore''"
    by code_simp+
  have p1: "''README.md'' \<notin> set object_prototype_names"
    and p2: "''.git'' \<notin> set object_prototype_names"
    by (simp_all add: object_prototype_names_def)
  show ?thesis
    using top_level_entry_copied_iff [where pf = Posix and specFile = Absent
        and entry = "''README.md''" and tmpdir = "''/tmp/t''" and root = "''/home/u/my-app''"
        and copy_fails = "\<lambda>src. False" and files = "[''README.md'', ''.git'']",
        OF disjI1, OF refl p1]
      top_level_entry_copied_iff [where pf = Posix and specFile = Absent
        and entry = "''.git''" and tmpdir = "''/tmp/t''" and root = "''/home/u/my-app''"
        and copy_fails = "\<lambda>src. False" and files = "[''README.md'', ''.git'']",
        OF disjI1, OF refl p2]
    by (simp add: m1 m2 path_join_def path_sep_def)
qed

text \<open>
  The scenario of the specification: with the defaults only and a template root that holds
  \<open>a.txt\<close>, \<open>node_modules\<close> and \<open>package.json\<close>, the copy phase of either variant copies
  \<open>a.txt\<close> and nothing else.
\<close>

theorem default_spec_copy_scenario:
  "copy_phase Posix ''/home/u/my-app'' ''/tmp/t'' (\<lambda>src. False)
       [''a.txt'', ''node_modules'', ''package.json''] (fst (readSpec Posix Absent))
     = ([Print (Info ''Copying files...''),
         CopyPath ''/tmp/t/a.txt'' ''/home/u/my-app/a.txt'', Print (Added ''a.txt'')],
        Resolved ())
   \<and> normalizeConfig Posix None = Inr (defaultSpec_yaml, [])
   \<and> copy_phase Posix ''/home/u/my-app'' ''/tmp/t'' (\<lambda>src. False)
       [''a.txt'', ''node_modules'', ''package.json''] defaultSpec_yaml
     = ([Print (Info ''Copying files...''),
         CopyPath ''/tmp/t/a.txt'' ''/home/u/my-app/a.txt'', Print (Added ''a.txt'')],
        Resolved ())"
  by code_simp






section \<open>Failures of single file operations\<close>


section \<open>A template without a readable configuration\<close>

text \<open>
  C7. The claim holds for \<open>readSpec\<close>, as shown after this theorem. In the
  variant that reads \<open>craft.yaml\<close> or \<open>craft.yml\<close> the loader starts from \<open>config = {}\<close> and
  returns it when no file is there, when the file cannot be read and when its content is
  refused, so the result has no \<open>spec\<close> at all, although the message printed says
  \<open>Using defaults\<close>. The deletion phase then calls \<open>Object.keys(undefined)\<close>, and the run
  ends in the handler of the final \<open>catch\<close>.
\<close>

theorem missing_configuration_aborts_run:
  "readConfig pf safeLoad Absent Absent = (None, [])
   \<and> readConfig pf safeLoad Unreadable ymlFile
       = (None, [UsingConfigurationFrom ''craft.yaml'', FailedToRead ''craft.yaml'', Printed IOError])
   \<and> readConfig pf (\<lambda>txt. Inl YAMLException) (Content txt) ymlFile
       = (None, [UsingConfigurationFrom ''craft.yaml'', FailedToRead ''craft.yaml'',
                 Printed YAMLException])
   \<and> readConfig pf (\<lambda>txt. Inr (Some JNull)) (Content txt) ymlFile
       = (None, [UsingConfigurationFrom ''craft.yaml'', FailedToRead ''craft.yaml'',
                 Printed TypeError])
   \<and> delete_phase pf root remove_fails None
       = ([Print (Info ''Deleting files...'')], Rejected (Thrown TypeError))
   \<and> run_yaml sample_world
       = ([Spawn ''npx'' [''create-react-app'', ''my-app''],
           Print (Info ''Applying custom template...''),
           Spawn ''git'' [''clone'', ''https://example.org/t.git'', ''/tmp/t''],
           Print (Info ''Deleting files...''),
           Print (Info ''Aborting installation.''),
           Print (Info ''Unexpected error. Please report it as a bug:''),
           Print (Printed TypeError)],
          Rejected (Thrown TypeError))"
proof -
  have "run_yaml sample_world
       = ([Spawn ''npx'' [''create-react-app'', ''my-app''],
           Print (Info ''Applying custom template...''),
           Spawn ''git'' [''clone'', ''https://example.org/t.git'', ''/tmp/t''],
           Print (Info ''Deleting files...''),
           Print (Info ''Aborting installation.''),
           Print (Info ''Unexpected error. Please report it as a bug:''),
           Print (Printed TypeError)],
          Rejected (Thrown TypeError))"
    by code_simp
  then show ?thesis
    by (simp add: readConfig_def delete_phase_def normalizeConfig_def get_member_def)
qed

text \<open>
  The variant that reads \<open>craft.spec\<close> does what C7 says: without the file the loader
  returns the defaults and prints nothing, with an unreadable file it returns the defaults
  and prints the warning, and the deletion phase that follows is handed a Spec.
\<close>

theorem earlier_variant_falls_back_to_defaults:
  "readSpec pf Absent = (defaultSpec_line, [])
   \<and> readSpec pf Unreadable
       = (defaultSpec_line, [UsingSpecificationFrom ''craft.spec'', FailedToRead ''craft.spec''])
   \<and> snd (delete_phase pf root remove_fails (Some (fst (readSpec pf specFile))))
       = Resolved (fst (readSpec pf specFile))"
  by (simp add: readSpec_def delete_phase_events)

section \<open>The manifests\<close>

text \<open>
  C5. In the variant that reads \<open>craft.spec\<close> (and in \<open>index.js\<close>) the names left out of the
  install are the fixed list \<open>react\<close>, \<open>react-dom\<close>, \<open>react-scripts\<close>; the manifest of the
  generated app is not read before the install. With a generated app that depends on
  \<open>web-vitals\<close> and a template that does too, \<open>npm install\<close> is started with
  \<open>web-vitals@^1.0.0\<close>.
\<close>

theorem fixed_list_installs_present_dependency:
  "map_of (props_of (map_of sample_app ''dependencies'')) ''web-vitals''
     = Some (JStr ''^2.1.4'')
   \<and> manifest_phase_line Posix ''/home/u/my-app'' defaultSpec_line (Some (JObj sample_template)) 0
       (Some (JObj sample_app)) False
     = ([Print (Info ''Installing template packages...''),
         Spawn ''npm'' [''install'', ''--save'', ''--loglevel'', ''error'', ''lodash@^4.0.0'',
                        ''web-vitals@^1.0.0''],
         WriteJson ''/home/u/my-app/package.json''
           (JObj [(''name'', JStr ''my-app''),
                  (''dependencies'',
                     JObj [(''react'', JStr ''^18.2.0''), (''react-dom'', JStr ''^18.2.0''),
                           (''react-scripts'', JStr ''5.0.1''), (''web-vitals'', JStr ''^2.1.4'')]),
                  (''scripts'',
                     JObj [(''build'', JStr ''custom-build''),
                           (''test'', JStr ''react-scripts test'')]),
                  (''eslintConfig'', JObj [(''extends'', JStr ''react-app'')])])
           2],
        Resolved ())"
  by code_simp

lemma map_of_exclude_installed:
  "map_of (exclude_installed keys deps) k = (if k \<in> set keys then None else map_of deps k)"
  unfolding exclude_installed_def
  by (induction keys arbitrary: deps) (simp_all add: AList.delete_conv')

lemma props_of_falsy: "\<not> truthy v \<Longrightarrow> props_of v = []"
  by (auto simp: truthy_def props_of_def own_props_def split: option.splits jsval.splits)

lemma template_dependencies_props:
  "template_dependencies d = Some (td, own) \<Longrightarrow> td = props_of d"
  by (auto simp: template_dependencies_def truthy_def props_of_def own_props_def
      split: option.splits jsval.splits if_splits)

lemma write_merged_no_spawn: "Spawn c args \<notin> set (fst (write_merged pf root merge t a w_fails))"
  by (auto simp: write_merged_def split: option.splits sum.splits)

lemma install_spawn:
  "Spawn ''npm'' args \<in> set (fst (and_then (install deps code) (\<lambda>_. write_merged pf root merge t a w_fails)))
     \<Longrightarrow> install_args deps = Some args"
  using write_merged_no_spawn [of "''npm''" args pf root merge t a w_fails]
  by (auto simp: install_def and_then_def split: option.splits if_splits)

lemma install_args_packages:
  assumes "install_args deps = Some args"
  shows "args = [''install'', ''--save'', ''--loglevel'', ''error'']
                @ map (\<lambda>key. key @ ''@'' @ the (js_to_string (the (map_of deps key)))) (own_keys deps)"
proof -
  let ?pkg = "\<lambda>key. map_option (\<lambda>version. key @ ''@'' @ version)
                       (case map_of deps key of None \<Rightarrow> Some ''undefined'' | Some v \<Rightarrow> js_to_string v)"
  from assms have none: "None \<notin> set (map ?pkg (own_keys deps))"
    and args: "args = [''install'', ''--save'', ''--loglevel'', ''error''] @ map the (map ?pkg (own_keys deps))"
    by (auto simp: install_args_def Let_def split: if_splits)
  have "the (?pkg key) = key @ ''@'' @ the (js_to_string (the (map_of deps key)))"
    if "key \<in> set (own_keys deps)" for key
  proof -
    from that obtain v where v: "map_of deps key = Some v"
      by (auto simp: set_own_keys) (metis domD dom_map_of_conv_image_fst fst_conv imageI)
    from none that have "?pkg key \<noteq> None" by force
    with v show ?thesis by (auto simp: v)
  qed
  then have "map the (map ?pkg (own_keys deps))
      = map (\<lambda>key. key @ ''@'' @ the (js_to_string (the (map_of deps key)))) (own_keys deps)"
    by simp
  with args show ?thesis by simp
qed

text \<open>
  The variant that reads \<open>craft.yaml\<close> does what C5 says. Whenever its manifest step, run
  on a template manifest and an app manifest that are objects, starts \<open>npm\<close>, the
  arguments are the four fixed ones followed by one \<open>name@version\<close> per key of an object
  \<open>deps\<close> whose keys are the template's dependency names without the names the app
  manifest had before the install, each with the template's version.
\<close>

theorem later_variant_install_excludes_baseline_names:
  assumes run: "manifest_phase_yaml pf root spec (Some (JObj template)) (Some (JObj app)) code
                  app_json_after write_fails = (tr, res)"
    and spawn: "Spawn ''npm'' args \<in> set tr"
  shows "\<exists>deps. args = [''install'', ''--save'', ''--loglevel'', ''error'']
                     @ map (\<lambda>key. key @ ''@'' @ the (js_to_string (the (map_of deps key))))
                         (own_keys deps)
           \<and> set (own_keys deps)
               = fst ` set (props_of (map_of template ''dependencies''))
                 - fst ` set (props_of (map_of app ''dependencies''))
           \<and> (\<forall>k. map_of deps k =
                 (if k \<in> fst ` set (props_of (map_of app ''dependencies'')) then None
                  else map_of (props_of (map_of template ''dependencies'')) k))"
proof -
  let ?d = "map_of template ''dependencies''" and ?ad = "map_of app ''dependencies''"
  have merge: "get_property spec ''package.json'' = Own ''merge''"
    using run spawn by (auto simp: manifest_phase_yaml_def split: if_splits)
  obtain td own where td: "template_dependencies ?d = Some (td, own)"
    using run spawn merge
    by (cases "template_dependencies ?d")
      (auto simp: manifest_phase_yaml_def and_then_resolved get_member_def)
  define deps where "deps = exclude_installed (if truthy ?ad then own_keys (props_of ?ad) else []) td"
  define t' where "t' = (if own then with_dependencies (JObj template) deps else JObj template)"
  have "tr = Print (Info ''Installing template packages...'') #
          fst (and_then (install deps code)
                 (\<lambda>_. write_merged pf root merge_manifest_yaml t' app_json_after write_fails))"
    using run merge td
    by (auto simp: manifest_phase_yaml_def and_then_resolved get_member_def deps_def t'_def Let_def)
  with spawn have args: "install_args deps = Some args"
    using install_spawn by auto
  have keys: "set (if truthy ?ad then own_keys (props_of ?ad) else []) = fst ` set (props_of ?ad)"
    by (cases "truthy ?ad") (simp_all add: set_own_keys props_of_falsy)
  have lookup: "map_of deps k =
      (if k \<in> fst ` set (props_of ?ad) then None else map_of (props_of ?d) k)" for k
    unfolding deps_def map_of_exclude_installed keys
    using template_dependencies_props [OF td] by simp
  have "set (own_keys deps) = fst ` set (props_of ?d) - fst ` set (props_of ?ad)"
  proof -
    have "k \<in> fst ` set deps \<longleftrightarrow> k \<in> fst ` set (props_of ?d) - fst ` set (props_of ?ad)" for k
    proof -
      have "k \<in> fst ` set deps \<longleftrightarrow> map_of deps k \<noteq> None"
        by (simp add: map_of_eq_None_iff)
      also have "\<dots> \<longleftrightarrow> k \<notin> fst ` set (props_of ?ad) \<and> map_of (props_of ?d) k \<noteq> None"
        by (simp add: lookup)
      also have "\<dots> \<longleftrightarrow> k \<in> fst ` set (props_of ?d) - fst ` set (props_of ?ad)"
        by (auto simp: map_of_eq_None_iff)
      finally show ?thesis .
    qed
    then show ?thesis unfolding set_own_keys by blast
  qed
  with install_args_packages [OF args] lookup show ?thesis by blast
qed

theorem later_variant_install_excludes_baseline_names_witness:
  "manifest_phase_yaml Posix ''/home/u/my-app'' defaultSpec_yaml (Some (JObj sample_template))
     (Some (JObj sample_app)) 0 None False
     = ([Print (Info ''Installing template packages...''),
         Spawn ''npm'' [''install'', ''--save'', ''--loglevel'', ''error'', ''lodash@^4.0.0'']],
        Rejected (Thrown IOError))
   \<and> fst ` set (props_of (map_of sample_template ''dependencies''))
       - fst ` set (props_of (map_of sample_app ''dependencies'')) = {''lodash''}
   \<and> (\<exists>deps. [''install'', ''--save'', ''--loglevel'', ''error'', ''lodash@^4.0.0'']
                 = [''install'', ''--save'', ''--loglevel'', ''error'']
                   @ map (\<lambda>key. key @ ''@'' @ the (js_to_string (the (map_of deps key))))
                       (own_keys deps)
               \<and> set (own_keys deps) = {''lodash''})"
proof -
  have run: "manifest_phase_yaml Posix ''/home/u/my-app'' defaultSpec_yaml (Some (JObj sample_template))
     (Some (JObj sample_app)) 0 None False
     = ([Print (Info ''Installing template packages...''),
         Spawn ''npm'' [''install'', ''--save'', ''--loglevel'', ''error'', ''lodash@^4.0.0'']],
        Rejected (Thrown IOError))"
    by code_simp
  have names: "fst ` set (props_of (map_of sample_template ''dependencies''))
       - fst ` set (props_of (map_of sample_app ''dependencies'')) = {''lodash''}"
    by (auto simp: sample_template_def sample_app_def props_of_def own_props_def)
  have "Spawn ''npm'' [''install'', ''--save'', ''--loglevel'', ''error'', ''lodash@^4.0.0'']
      \<in> set [Print (Info ''Installing template packages...''),
              Spawn ''npm'' [''install'', ''--save'', ''--loglevel'', ''error'', ''lodash@^4.0.0'']]"
    by simp
  from later_variant_install_excludes_baseline_names [OF run this]
  show ?thesis
    unfolding names using run names by blast
qed

lemma map_of_merge_scripts:
  "map_of (merge_scripts a_scripts t_scripts) k =
     (if k = ''__proto__'' then None
      else (map_of (props_of a_scripts) ++ map_of (props_of t_scripts)) k)"
  by (simp add: merge_scripts_def map_of_assign_twice)

lemma map_of_merge_base:
  "map_of (set_property (object_assign (object_assign [] template) app) ''scripts'' sc) k =
     (if k = ''scripts'' then Some sc
      else if k = ''__proto__'' then None
      else (map_of template ++ map_of app) k)"
  by (simp add: map_of_set_property map_of_assign_twice)

lemma merge_manifest_line_fields:
  assumes "merge_manifest_line (JObj template) (JObj app) = Inr m"
  shows "map_of m k =
     (if k = ''scripts''
      then Some (JObj (merge_scripts (map_of app ''scripts'') (map_of template ''scripts'')))
      else if k = ''__proto__'' then None
      else (map_of template ++ map_of app) k)"
proof -
  have "m = set_property (object_assign (object_assign [] template) app) ''scripts''
              (JObj (merge_scripts (map_of app ''scripts'') (map_of template ''scripts'')))"
    using assms by (simp add: merge_manifest_line_def get_member_def own_props_def)
  then show ?thesis
    by (simp only: map_of_merge_base)
qed

lemma merge_manifest_yaml_fields:
  assumes "merge_manifest_yaml (JObj template) (JObj app) = Inr m"
  shows "map_of m k =
     (if k = ''eslintConfig''
      then (if truthy (map_of template ''eslintConfig'') then map_of template ''eslintConfig''
            else map_of app ''eslintConfig'')
      else if k = ''scripts''
      then Some (JObj (merge_scripts (map_of app ''scripts'') (map_of template ''scripts'')))
      else if k = ''__proto__'' then None
      else (map_of template ++ map_of app) k)"
proof -
  let ?base = "set_property (object_assign (object_assign [] template) app) ''scripts''
                 (JObj (merge_scripts (map_of app ''scripts'') (map_of template ''scripts'')))"
  let ?eslint = "if truthy (map_of template ''eslintConfig'') then map_of template ''eslintConfig''
                 else map_of app ''eslintConfig''"
  have m: "m = (case ?eslint of
                  Some v \<Rightarrow> set_property ?base ''eslintConfig'' v
                | None \<Rightarrow> AList.delete ''eslintConfig'' ?base)"
    using assms
    by (simp add: merge_manifest_yaml_def get_member_def own_props_def Let_def
        split: if_splits)
  show ?thesis
  proof (cases ?eslint)
    case None
    with m have "m = AList.delete ''eslintConfig'' ?base" by simp
    then have "map_of m k = (if k = ''eslintConfig'' then None else map_of ?base k)"
      by (simp add: AList.delete_conv')
    with None show ?thesis
      by (simp add: map_of_merge_base)
  next
    case (Some v)
    with m have "m = set_property ?base ''eslintConfig'' v" by simp
    then have "map_of m k = (if k = ''eslintConfig'' then Some v else map_of ?base k)"
      by (simp add: map_of_set_property)
    with Some show ?thesis
      by (simp add: map_of_merge_base)
  qed
qed

lemma own_props_with_dependencies:
  "map_of (own_props (with_dependencies (JObj template) deps)) k =
     (if k = ''dependencies'' \<and> (\<exists>old. map_of template k = Some (JObj old))
      then Some (JObj deps) else map_of template k)"
  by (auto simp: with_dependencies_def own_props_def AList.update_conv'
      split: option.splits jsval.splits)

text \<open>
  C4, as amended. \<open>template\<close> and \<open>app\<close> are the fields of the template manifest and of the
  app manifest read after the install, as the merge finds them. In both variants the
  object written to \<open>package.json\<close> under the project root, as
  \<open>JSON.stringify(packageJson, null, 2)\<close>, is the merged one. Its field \<open>scripts\<close> is the
  app's scripts overlaid by the template's. Every other field but \<open>__proto__\<close> (and, in
  the variant that reads \<open>craft.yaml\<close>, \<open>eslintConfig\<close>) is the app's when the app has it
  and the template's otherwise. In the variant that reads \<open>craft.yaml\<close> the field
  \<open>eslintConfig\<close> is the template's value when that is truthy and the app's otherwise.
  The template object the merge reads differs from the manifest in the template's file
  at most in \<open>dependencies\<close>, from which the manifest step has deleted the excluded names.
\<close>

theorem merged_manifest_fields:
  assumes y: "merge_manifest_yaml (JObj template) (JObj app) = Inr m"
    and l: "merge_manifest_line (JObj template) (JObj app) = Inr m'"
  shows "write_merged pf root merge_manifest_yaml (JObj template) (Some (JObj app)) False
           = ([WriteJson (path_join pf root ''package.json'') (JObj m) 2], Resolved ())
     \<and> write_merged pf root merge_manifest_line (JObj template) (Some (JObj app)) False
           = ([WriteJson (path_join pf root ''package.json'') (JObj m') 2], Resolved ())
     \<and> (k \<notin> {''scripts'', ''eslintConfig'', ''__proto__''} \<longrightarrow>
           map_of m k = (map_of template ++ map_of app) k)
     \<and> (k \<notin> {''scripts'', ''__proto__''} \<longrightarrow>
           map_of m' k = (map_of template ++ map_of app) k)
     \<and> map_of m ''scripts''
           = Some (JObj (merge_scripts (map_of app ''scripts'') (map_of template ''scripts'')))
     \<and> map_of m' ''scripts''
           = Some (JObj (merge_scripts (map_of app ''scripts'') (map_of template ''scripts'')))
     \<and> (k \<noteq> ''__proto__'' \<longrightarrow>
           map_of (merge_scripts (map_of app ''scripts'') (map_of template ''scripts'')) k
             = (map_of (props_of (map_of app ''scripts''))
                ++ map_of (props_of (map_of template ''scripts''))) k)
     \<and> map_of m ''eslintConfig''
           = (if truthy (map_of template ''eslintConfig'') then map_of template ''eslintConfig''
              else map_of app ''eslintConfig'')
     \<and> (k \<noteq> ''dependencies'' \<longrightarrow>
           map_of (own_props (with_dependencies (JObj template) deps)) k = map_of template k)"
proof -
  have d: "k \<noteq> ''dependencies'' \<longrightarrow>
           map_of (own_props (with_dependencies (JObj template) deps)) k = map_of template k"
    by (simp add: own_props_with_dependencies)
  have w: "write_merged pf root merge_manifest_yaml (JObj template) (Some (JObj app)) False
           = ([WriteJson (path_join pf root ''package.json'') (JObj m) 2], Resolved ())"
    "write_merged pf root merge_manifest_line (JObj template) (Some (JObj app)) False
           = ([WriteJson (path_join pf root ''package.json'') (JObj m') 2], Resolved ())"
    using y l by (simp_all add: write_merged_def)
  have f: "k \<notin> {''scripts'', ''eslintConfig'', ''__proto__''} \<longrightarrow>
           map_of m k = (map_of template ++ map_of app) k"
    "k \<notin> {''scripts'', ''__proto__''} \<longrightarrow>
           map_of m' k = (map_of template ++ map_of app) k"
    by (simp_all add: merge_manifest_yaml_fields [OF y] merge_manifest_line_fields [OF l])
  have s: "map_of m ''scripts''
           = Some (JObj (merge_scripts (map_of app ''scripts'') (map_of template ''scripts'')))"
    "map_of m' ''scripts''
           = Some (JObj (merge_scripts (map_of app ''scripts'') (map_of template ''scripts'')))"
    by (simp_all add: merge_manifest_yaml_fields [OF y] merge_manifest_line_fields [OF l])
  have e: "map_of m ''eslintConfig''
           = (if truthy (map_of template ''eslintConfig'') then map_of template ''eslintConfig''
              else map_of app ''eslintConfig'')"
    by (simp add: merge_manifest_yaml_fields [OF y])
  show ?thesis
    using w f s e d by (simp add: map_of_merge_scripts)
qed

theorem merged_manifest_fields_witness:
  "write_merged Posix ''/home/u/my-app'' merge_manifest_yaml
       (JObj [(''name'', JStr ''template''),
              (''scripts'', JObj [(''build'', JStr ''custom-build'')]),
              (''eslintConfig'', JObj [(''extends'', JStr ''airbnb'')])])
       (Some (JObj [(''name'', JStr ''my-app''),
                    (''scripts'', JObj [(''build'', JStr ''react-scripts build''),
                                        (''test'', JStr ''react-scripts test'')]),
                    (''eslintConfig'', JObj [(''extends'', JStr ''react-app'')])]))
       False
     = ([WriteJson ''/home/u/my-app/package.json''
           (JObj [(''name'', JStr ''my-app''),
                  (''scripts'', JObj [(''build'', JStr ''custom-build''),
                                      (''test'', JStr ''react-scripts test'')]),
                  (''eslintConfig'', JObj [(''extends'', JStr ''airbnb'')])])
           2],
        Resolved ())
   \<and> write_merged Posix ''/home/u/my-app'' merge_manifest_line
       (JObj [(''name'', JStr ''template''),
              (''scripts'', JObj [(''build'', JStr ''custom-build'')]),
              (''eslintConfig'', JObj [(''extends'', JStr ''airbnb'')])])
       (Some (JObj [(''name'', JStr ''my-app''),
                    (''scripts'', JObj [(''build'', JStr ''react-scripts build''),
                                        (''test'', JStr ''react-scripts test'')]),
                    (''eslintConfig'', JObj [(''extends'', JStr ''react-app'')])]))
       False
     = ([WriteJson ''/home/u/my-app/package.json''
           (JObj [(''name'', JStr ''my-app''),
                  (''scripts'', JObj [(''build'', JStr ''custom-build''),
                                      (''test'', JStr ''react-scripts test'')]),
                  (''eslintConfig'', JObj [(''extends'', JStr ''react-app'')])])
           2],
        Resolved ())"
proof -
  have y: "merge_manifest_yaml
       (JObj [(''name'', JStr ''template''),
              (''scripts'', JObj [(''build'', JStr ''custom-build'')]),
              (''eslintConfig'', JObj [(''extends'', JStr ''airbnb'')])])
       (JObj [(''name'', JStr ''my-app''),
              (''scripts'', JObj [(''build'', JStr ''react-scripts build''),
                                  (''test'', JStr ''react-scripts test'')]),
              (''eslintConfig'', JObj [(''extends'', JStr ''react-app'')])])
     = Inr [(''name'', JStr ''my-app''),
            (''scripts'', JObj [(''build'', JStr ''custom-build''),
                                (''test'', JStr ''react-scripts test'')]),
            (''eslintConfig'', JObj [(''extends'', JStr ''airbnb'')])]"
    by code_simp
  have l: "merge_manifest_line
       (JObj [(''name'', JStr ''template''),
              (''scripts'', JObj [(''build'', JStr ''custom-build'')]),
              (''eslintConfig'', JObj [(''extends'', JStr ''airbnb'')])])
       (JObj [(''name'', JStr ''my-app''),
              (''scripts'', JObj [(''build'', JStr ''react-scripts build''),
                                  (''test'', JStr ''react-scripts test'')]),
              (''eslintConfig'', JObj [(''extends'', JStr ''react-app'')])])
     = Inr [(''name'', JStr ''my-app''),
            (''scripts'', JObj [(''build'', JStr ''custom-build''),
                                (''test'', JStr ''react-scripts test'')]),
            (''eslintConfig'', JObj [(''extends'', JStr ''react-app'')])]"
    by code_simp
  show ?thesis
    using merged_manifest_fields [OF y l, of Posix "''/home/u/my-app''"]
    by (simp add: path_join_def path_sep_def)
qed

text \<open>
  C4 as stated fails twice. In the earlier variants nothing treats \<open>eslintConfig\<close> apart:
  with the sample manifests the template asks for \<open>airbnb\<close> and the written manifest keeps
  the app's \<open>react-app\<close>. In the variant that reads \<open>craft.yaml\<close> a template value that is
  present but falsy (\<open>false\<close>) gives way to the app's.
\<close>

theorem lint_configuration_counterexample:
  "map_of sample_template ''eslintConfig'' = Some (JObj [(''extends'', JStr ''airbnb'')])
   \<and> merge_manifest_line (JObj sample_template) (JObj sample_app)
       = Inr [(''name'', JStr ''my-app''),
              (''dependencies'',
                 JObj [(''react'', JStr ''^18.2.0''), (''react-dom'', JStr ''^18.2.0''),
                       (''react-scripts'', JStr ''5.0.1''), (''web-vitals'', JStr ''^2.1.4'')]),
              (''scripts'',
                 JObj [(''build'', JStr ''custom-build''), (''test'', JStr ''react-scripts test'')]),
              (''eslintConfig'', JObj [(''extends'', JStr ''react-app'')])]
   \<and> merge_manifest_yaml (JObj [(''eslintConfig'', JBool False)])
        (JObj [(''eslintConfig'', JObj [(''extends'', JStr ''react-app'')])])
       = Inr [(''eslintConfig'', JObj [(''extends'', JStr ''react-app'')]), (''scripts'', JObj [])]"
  by code_simp

section \<open>External commands that fail\<close>

text \<open>
  C9. The claim holds for the generator and for \<open>git clone\<close>, as shown after this
  theorem. For \<open>npm install\<close> the \<open>close\<close> handler
  builds the rejection from \<open>command\<close>, an identifier that \<open>install\<close> never declares (the
  two sibling handlers declare it as a local constant): the read throws inside the event
  handler, the promise is never settled, and the run ends there without reaching the
  handler of the final \<open>catch\<close> and without printing a command line. This is so in both
  variants.
\<close>

theorem failed_install_crashes_run:
  "install [(''lodash'', JStr ''^4.0.0'')] 1
     = ([Spawn ''npm'' [''install'', ''--save'', ''--loglevel'', ''error'', ''lodash@^4.0.0'']],
        Crashed (ReferenceError ''command''))
   \<and> run_yaml (sample_world \<lparr> w_ymlFile := Content [], w_install_code := 1 \<rparr>)
     = ([Spawn ''npx'' [''create-react-app'', ''my-app''],
         Print (Info ''Applying custom template...''),
         Spawn ''git'' [''clone'', ''https://example.org/t.git'', ''/tmp/t''],
         Print (UsingConfigurationFrom ''craft.yml''),
         Print (Info ''Deleting files...''), Print (Info ''Copying files...''),
         CopyPath ''/tmp/t/README.md'' ''/home/u/my-app/README.md'',
         Print (Added ''README.md''),
         Print (Info ''Installing template packages...''),
         Spawn ''npm'' [''install'', ''--save'', ''--loglevel'', ''error'', ''lodash@^4.0.0'']],
        Crashed (ReferenceError ''command''))
   \<and> run_line (sample_world \<lparr> w_install_code := 1 \<rparr>)
     = ([Spawn ''npx'' [''create-react-app'', ''my-app''],
         Print (Info ''Applying custom template...''),
         Spawn ''git'' [''clone'', ''https://example.org/t.git'', ''/tmp/t''],
         Print (Info ''Deleting files...''), Print (Info ''Copying files...''),
         CopyPath ''/tmp/t/README.md'' ''/home/u/my-app/README.md'',
         Print (Added ''README.md''),
         Print (Info ''Installing template packages...''),
         Spawn ''npm'' [''install'', ''--save'', ''--loglevel'', ''error'', ''lodash@^4.0.0'',
                        ''web-vitals@^1.0.0'']],
        Crashed (ReferenceError ''command''))"
  by code_simp

text \<open>
  For the generator and for \<open>git clone\<close> the run does what C9 says, in both variants: a
  non-zero exit code rejects the chain with the command line, nothing of the later phases
  happens, and the handler of the final \<open>catch\<close> prints that command line.
\<close>

theorem failed_generator_or_clone_is_reported:
  "(w_createApp_code w \<noteq> 0 \<longrightarrow>
      run_yaml w
        = ([Spawn (if w_npx w then ''npx'' else ''create-react-app'')
              (if w_npx w then [''create-react-app'', w_projectName w] else [w_projectName w]),
            Print (Info ''Aborting installation.''),
            Print (Info (''  '' @ (if w_npx w then ''npx create-react-app '' else ''create-react-app '')
                         @ w_projectName w @ '' has failed.''))],
           Rejected (CommandFailed
             ((if w_npx w then ''npx create-react-app '' else ''create-react-app '')
              @ w_projectName w)))
      \<and> run_line w = run_yaml w)
   \<and> (w_createApp_code w = 0 \<and> w_tmpdir w = Some tmpdir \<and> w_clone_code w \<noteq> 0 \<longrightarrow>
      run_yaml w
        = ([Spawn (if w_npx w then ''npx'' else ''create-react-app'')
              (if w_npx w then [''create-react-app'', w_projectName w] else [w_projectName w]),
            Print (Info ''Applying custom template...''),
            Spawn ''git'' [''clone'', w_projectTemplate w, tmpdir]]
           @ map Print (snd (readConfig (w_platform w) (w_safeLoad w) (w_yamlFile w) (w_ymlFile w)))
           @ [Print (Info ''Aborting installation.''),
              Print (Info (''  git clone '' @ w_projectTemplate w @ '' '' @ tmpdir
                           @ '' has failed.''))],
           Rejected (CommandFailed (''git clone '' @ w_projectTemplate w @ '' '' @ tmpdir)))
      \<and> run_line w
        = ([Spawn (if w_npx w then ''npx'' else ''create-react-app'')
              (if w_npx w then [''create-react-app'', w_projectName w] else [w_projectName w]),
            Print (Info ''Applying custom template...''),
            Spawn ''git'' [''clone'', w_projectTemplate w, tmpdir]]
           @ map Print (snd (readSpec (w_platform w) (w_specFile w)))
           @ [Print (Info ''Aborting installation.''),
              Print (Info (''  git clone '' @ w_projectTemplate w @ '' '' @ tmpdir
                           @ '' has failed.''))],
           Rejected (CommandFailed (''git clone '' @ w_projectTemplate w @ '' '' @ tmpdir))))"
  by (simp add: run_yaml_def run_line_def finish_def and_then_def createApp_def clone_def
      get_tmpdir_def catch_handler_def join_args_def Let_def)

theorem failed_generator_or_clone_is_reported_witness:
  "run_yaml (sample_world \<lparr> w_createApp_code := 1 \<rparr>)
     = ([Spawn ''npx'' [''create-react-app'', ''my-app''],
         Print (Info ''Aborting installation.''),
         Print (Info ''  npx create-react-app my-app has failed.'')],
        Rejected (CommandFailed ''npx create-react-app my-app''))
   \<and> run_line (sample_world \<lparr> w_clone_code := 128 \<rparr>)
     = ([Spawn ''npx'' [''create-react-app'', ''my-app''],
         Print (Info ''Applying custom template...''),
         Spawn ''git'' [''clone'', ''https://example.org/t.git'', ''/tmp/t''],
         Print (Info ''Aborting installation.''),
         Print (Info ''  git clone https://example.org/t.git /tmp/t has failed.'')],
        Rejected (CommandFailed ''git clone https://example.org/t.git /tmp/t''))"
  using failed_generator_or_clone_is_reported [of "sample_world \<lparr> w_createApp_code := 1 \<rparr>"]
    failed_generator_or_clone_is_reported [of "sample_world \<lparr> w_clone_code := 128 \<rparr>" "''/tmp/t''"]
  by (simp add: sample_world_def readSpec_def)

end
